theory Spec2Isabelle
  imports
    Complex_Main
    "HOL-Library.Char_ord"
    "HOL-Library.List_Lexorder"
    "HOL-Library.Product_Lexorder"
    "HOL-Library.Sublist"
begin

section \<open>Data model\<close>

text \<open>
  The scheduler (\<^verbatim>\<open>apps/Playgound/QuantaraAI_scheduler/main.py\<close>) moves OHLCV rows
  between a price-data provider and one storage table per resolution. A polars frame is
  a list of rows here; a column of a frame is the list of one field of its rows.

  A numeric value is either \<^verbatim>\<open>Int64\<close> or \<^verbatim>\<open>Float64\<close>. The type \<open>'f\<close> stands for the
  double-precision values: the code that runs only adds them, so \<open>'f\<close> is any type with
  an addition, and no law of the addition is assumed. Nulls and NaN are outside the
  model. Timestamps are epoch milliseconds.
\<close>

datatype 'f cell = Int64 int | Float64 'f

record 'f ohlcv =
  timestamp :: int
  symbol :: string
  "open" :: "'f cell"
  high :: "'f cell"
  low :: "'f cell"
  close :: "'f cell"
  volume :: "'f cell"

type_synonym 'f frame = "'f ohlcv list"

text \<open>
  Exceptions, as values. \<^verbatim>\<open>NameError\<close> holds the name that is not defined, \<^verbatim>\<open>KeyError\<close>
  the key; \<^verbatim>\<open>Exception\<close> is any exception of a call the scheduler does not define, with
  its text.
\<close>

datatype error =
  IndexError
  | KeyError string
  | NameError string
  | TypeError
  | ShapeError
  | Exception string


text \<open>
  \<^verbatim>\<open>pl.col(c).cast(pl.Float64)\<close> on one value: an integer is converted by \<open>cv\<close> (the
  conversion of a 64-bit integer to a double, a parameter), a double is left as it is.
\<close>

fun cast_Float64 :: "(int \<Rightarrow> 'f) \<Rightarrow> 'f cell \<Rightarrow> 'f" where
  "cast_Float64 cv (Int64 n) = cv n"
| "cast_Float64 cv (Float64 x) = x"

text \<open>
  The call \<^verbatim>\<open>df.with_columns(pl.col("close").cast(pl.Float64), pl.col("high").cast(pl.Float64),
  pl.col("low").cast(pl.Float64), pl.col("volume").cast(pl.Float64))\<close> of
  \<^verbatim>\<open>update_interval_record\<close>: four columns are cast, and \<^verbatim>\<open>open\<close> is not among them.
\<close>

definition with_columns_cast :: "(int \<Rightarrow> 'f) \<Rightarrow> 'f frame \<Rightarrow> 'f frame" where
  "with_columns_cast cv df =
     map (\<lambda>r. r\<lparr>close := Float64 (cast_Float64 cv (close r)),
                 high := Float64 (cast_Float64 cv (high r)),
                 low := Float64 (cast_Float64 cv (low r)),
                 volume := Float64 (cast_Float64 cv (volume r))\<rparr>) df"

text \<open>
  \<^verbatim>\<open>pl.max_horizontal\<close> and \<^verbatim>\<open>pl.min_horizontal\<close> do not compute a series: they build an
  expression (\<^verbatim>\<open>pl.Expr\<close>) over their arguments, to be evaluated in the context of a
  frame.
\<close>

datatype 'f expr =
  max_horizontal "'f cell list" "'f cell list"
  | min_horizontal "'f cell list" "'f cell list"

text \<open>A value of the dictionary given to \<^verbatim>\<open>pl.DataFrame\<close>: a series or an expression.\<close>

datatype 'f column = Series "'f cell list" | Expr "'f expr"

text \<open>
  \<^verbatim>\<open>a + b\<close> on two series. Two integers give an integer (the wrap-around at 64 bits is
  not modelled; after the casts both operands are doubles), any other pair is added as
  doubles. A series of length one is broadcast; two series of other different lengths
  are refused.
\<close>

fun add_cell :: "(int \<Rightarrow> 'f::plus) \<Rightarrow> 'f cell \<Rightarrow> 'f cell \<Rightarrow> 'f cell" where
  "add_cell cv (Int64 a) (Int64 b) = Int64 (a + b)"
| "add_cell cv (Int64 a) (Float64 y) = Float64 (cv a + y)"
| "add_cell cv (Float64 x) (Int64 b) = Float64 (x + cv b)"
| "add_cell cv (Float64 x) (Float64 y) = Float64 (x + y)"

definition add_series ::
  "(int \<Rightarrow> 'f::plus) \<Rightarrow> 'f cell list \<Rightarrow> 'f cell list \<Rightarrow> error + 'f cell list" where
  "add_series cv a b =
     (if length a = length b then Inr (map2 (add_cell cv) a b)
      else if length b = 1 then Inr (map (\<lambda>x. add_cell cv x (hd b)) a)
      else if length a = 1 then Inr (map (\<lambda>y. add_cell cv (hd a) y) b)
      else Inl ShapeError)"

text \<open>
  \<^verbatim>\<open>pl.DataFrame({"timestamp": ..., "symbol": ..., "open": ..., "high": ..., "low": ...,
  "close": ..., "volume": ...})\<close>: a frame from its seven columns. The constructor takes
  series; an expression among the values makes it raise \<^verbatim>\<open>TypeError\<close>. Series of
  different lengths are refused. Row \<open>i\<close> of the frame holds element \<open>i\<close> of every
  column.
\<close>

definition DataFrame ::
  "int list \<Rightarrow> string list \<Rightarrow> 'f column \<Rightarrow> 'f column \<Rightarrow> 'f column \<Rightarrow> 'f column \<Rightarrow>
   'f column \<Rightarrow> error + 'f frame" where
  "DataFrame ts sy op_col hi_col lo_col cl_col vo_col =
     (case op_col of Expr e \<Rightarrow> Inl TypeError | Series op \<Rightarrow>
     (case hi_col of Expr e \<Rightarrow> Inl TypeError | Series hi \<Rightarrow>
     (case lo_col of Expr e \<Rightarrow> Inl TypeError | Series lo \<Rightarrow>
     (case cl_col of Expr e \<Rightarrow> Inl TypeError | Series cl \<Rightarrow>
     (case vo_col of Expr e \<Rightarrow> Inl TypeError | Series vo \<Rightarrow>
        if length sy = length ts \<and> length op = length ts \<and> length hi = length ts \<and>
           length lo = length ts \<and> length cl = length ts \<and> length vo = length ts
        then Inr (map (\<lambda>i. \<lparr>timestamp = ts ! i, symbol = sy ! i, open = op ! i,
                             high = hi ! i, low = lo ! i, close = cl ! i,
                             volume = vo ! i\<rparr>) [0..<length ts])
        else Inl ShapeError)))))"

section \<open>Interval aggregation\<close>

text \<open>
  \<^verbatim>\<open>update_interval_record(existing_df, new_data_df)\<close>. Both frames are cast; the
  dictionary is built in the order of its keys, so the sum of the volumes is computed
  (and may raise) before \<^verbatim>\<open>pl.DataFrame\<close> is called. The values under \<^verbatim>\<open>"high"\<close> and
  \<^verbatim>\<open>"low"\<close> are the expressions that \<^verbatim>\<open>pl.max_horizontal\<close> and \<^verbatim>\<open>pl.min_horizontal\<close>
  return, not series.
\<close>

definition update_interval_record ::
  "(int \<Rightarrow> 'f::plus) \<Rightarrow> 'f frame \<Rightarrow> 'f frame \<Rightarrow> error + 'f frame" where
  "update_interval_record cv existing_df new_data_df =
     (let existing_cast = with_columns_cast cv existing_df;
          new_cast = with_columns_cast cv new_data_df
      in case add_series cv (map volume existing_cast) (map volume new_cast) of
           Inl err \<Rightarrow> Inl err
         | Inr vo \<Rightarrow>
             DataFrame (map timestamp existing_cast) (map symbol existing_cast)
               (Series (map open existing_cast))
               (Expr (max_horizontal (map high existing_cast) (map high new_cast)))
               (Expr (min_horizontal (map low existing_cast) (map low new_cast)))
               (Series (map close new_cast))
               (Series vo))"

text \<open>
  \<^verbatim>\<open>create_new_interval_record(interval_start_time, interval_name, new_data_df)\<close>. A
  \<^verbatim>\<open>datetime\<close> is its epoch second, so \<^verbatim>\<open>interval_start_time.timestamp() * 1000\<close> is
  \<open>interval_start_time * 1000\<close>. The interval name is not used by the body.
\<close>

definition create_new_interval_record :: "int \<Rightarrow> string \<Rightarrow> 'f frame \<Rightarrow> error + 'f frame" where
  "create_new_interval_record interval_start_time interval_name new_data_df =
     DataFrame (replicate (length new_data_df) (interval_start_time * 1000))
       (map symbol new_data_df) (Series (map open new_data_df))
       (Series (map high new_data_df)) (Series (map low new_data_df))
       (Series (map close new_data_df)) (Series (map volume new_data_df))"

section \<open>The scheduler's surroundings\<close>

text \<open>
  The match predicates the code passes to \<^verbatim>\<open>repository.update\<close>:
  \<^verbatim>\<open>"s.timestamp == t.timestamp"\<close> and
  \<^verbatim>\<open>"s.timestamp == t.timestamp AND s.symbol == t.symbol"\<close>.
\<close>

datatype predicate = MatchTimestamp | MatchTimestampAndSymbol

text \<open>
  What the scheduler calls and does not define: the data provider, the two repositories
  and the indicator computation. They are parameters, collected in one record, with the
  conversion of an integer to a double and the order in which polars lists the distinct
  values of a column (\<^verbatim>\<open>unique()\<close>, which leaves that order open). \<open>'ind\<close> is a table of
  indicator rows, \<open>'t\<close> the state of an OHLCV table and \<open>'u\<close> the state of an indicator
  table. A call that raises returns \<open>Inl\<close>; a read returns \<open>None\<close> for Python's \<^verbatim>\<open>None\<close>.
  An update that raises leaves its table as it was (the repository's upsert is atomic
  per call).
\<close>

record ('f, 'ind, 't, 'u) env =
  to_float64 :: "int \<Rightarrow> 'f"
  unique :: "string list \<Rightarrow> string list"
  get_current_ohlcv :: "string list \<Rightarrow> string \<Rightarrow> error + 'f frame"
  get_historical_ohlcv :: "string list \<Rightarrow> string \<Rightarrow> int \<Rightarrow> error + 'f frame"
  calculate_ta_indicators :: "'f frame \<Rightarrow> error + 'ind"
  ohlcv_get_all :: "'t \<Rightarrow> error + 'f frame option"
  ohlcv_get_by_timestamp :: "'t \<Rightarrow> int \<Rightarrow> error + 'f frame option"
  ohlcv_update :: "'t \<Rightarrow> 'f frame \<Rightarrow> predicate \<Rightarrow> error + 't"
  indicators_update :: "'u \<Rightarrow> 'ind \<Rightarrow> predicate \<Rightarrow> error + 'u"

text \<open>
  The state the scheduler acts on: the tables by name, the updates that completed
  (oldest first) and the lines written to the logger. An error line is the text before
  the exception and the exception that the f-string formats after it.
\<close>

datatype ('f, 'ind) upsert =
  OhlcvUpdate string "'f frame" predicate
  | IndicatorsUpdate string 'ind predicate

datatype log_record = INFO string | ERROR string error

record ('f, 'ind, 't, 'u) world =
  ohlcv_table :: "string \<Rightarrow> 't"
  indicators_table :: "string \<Rightarrow> 'u"
  updates :: "('f, 'ind) upsert list"
  logged :: "log_record list"

definition interval_names :: "string list" where
  "interval_names = [''raw'', ''1h'', ''4h'', ''1d'']"

definition COINS :: "string list" where
  "COINS =
    [''BTC'', ''ETH'', ''SOL'', ''NEIRO'', ''SUI'', ''PEPE'', ''OG'', ''WIF'', ''FTT'',
     ''BNB'', ''XRP'', ''SEI'', ''DOGE'', ''TAO'', ''FET'', ''SANTOS'', ''WLD'',
     ''SHIB'', ''APT'', ''FTM'', ''EIGEN'', ''PEOPLE'', ''SAGA'', ''RUNE'', ''NEAR'',
     ''1000SATS'', ''BONK'', ''FLOKI'', ''NOT'', ''DOGS'', ''1MBABYDOGE'', ''CFX'',
     ''TURBO'', ''AVAX'', ''BOME'', ''WING'', ''LAZIO'', ''CVC'', ''ENA'', ''TRX'',
     ''ORDI'', ''ARB'', ''HMSTR'', ''LINK'', ''EUR'', ''CATI'', ''BNX'', ''RENDER'',
     ''TON'', ''TIA'', ''ADA'', ''AAVE'', ''ALPINE'', ''INJ'', ''ZRO'', ''ZK'', ''USTC'',
     ''MKR'', ''LTC'', ''PORTO'', ''DIA'', ''ARKM'', ''PENDLE'', ''ICP'', ''ALT'',
     ''IO'', ''FIL'', ''GALA'', ''OP'', ''JUP'', ''BCH'', ''STX'', ''ASR'', ''UNI'',
     ''CELO'', ''BANANA'', ''W'', ''POL'', ''TROY'', ''LUNC'', ''ATM'', ''MANTA'',
     ''DYDX'', ''CRV'', ''STRK'', ''DOT'', ''FORTH'', ''LUNA'', ''ACH'', ''CHZ'',
     ''ATOM'', ''YGG'', ''PHB'', ''AR'', ''JTO'', ''LDO'', ''HBAR'', ''SUPER'', ''FIDA'',
     ''MEME'', ''CKB'', ''OMNI'', ''PYTH'', ''PSG'', ''DEGO'', ''OM'', ''BEAMX'', ''BB'',
     ''EURI'', ''JASMY'', ''RAY'', ''SUN'', ''PIXEL'', ''BLUR'', ''ROSE'', ''GRT'',
     ''TRB'', ''WOO'', ''IMX'', ''SSV'', ''AI'']"

text \<open>
  A Python \<^verbatim>\<open>for\<close> loop whose body may raise: the first exception ends the loop and
  leaves it, with the state reached. A body that ends in \<^verbatim>\<open>continue\<close> returns no
  exception.
\<close>

fun for_each :: "('a \<Rightarrow> 'w \<Rightarrow> error option \<times> 'w) \<Rightarrow> 'a list \<Rightarrow> 'w \<Rightarrow> error option \<times> 'w" where
  "for_each body [] w = (None, w)"
| "for_each body (x # xs) w =
     (case body x w of
        (Some e, w') \<Rightarrow> (Some e, w')
      | (None, w') \<Rightarrow> for_each body xs w')"

section \<open>Refreshing the OHLCV tables\<close>

text \<open>
  \<^verbatim>\<open>OhlcvRepository(table_name=...).update(df, predicate=...)\<close> on the state.
\<close>

definition repository_update ::
  "('f, 'ind, 't, 'u) env \<Rightarrow> string \<Rightarrow> 'f frame \<Rightarrow> predicate \<Rightarrow>
   ('f, 'ind, 't, 'u) world \<Rightarrow> error option \<times> ('f, 'ind, 't, 'u) world" where
  "repository_update env table_name df p w =
     (case ohlcv_update env (ohlcv_table w table_name) df p of
        Inl e \<Rightarrow> (Some e, w)
      | Inr t \<Rightarrow>
          (None, w\<lparr>ohlcv_table := (ohlcv_table w)(table_name := t),
                    updates := updates w @ [OhlcvUpdate table_name df p]\<rparr>))"

text \<open>
  \<^verbatim>\<open>get_interval_start_time\<close>: \<^verbatim>\<open>update_interval_data\<close> calls it at its first line, and
  the module neither defines nor imports the name (this call is its only occurrence in
  the file). Evaluating the name raises \<^verbatim>\<open>NameError\<close>.
\<close>

definition get_interval_start_time :: "int \<Rightarrow> string \<Rightarrow> error + int" where
  "get_interval_start_time current_time interval_name =
     Inl (NameError ''get_interval_start_time'')"

text \<open>
  \<^verbatim>\<open>update_interval_data(repository, interval_name, new_data_df, current_time)\<close>; the
  repository is given by its table name. The bucket is looked up at
  \<^verbatim>\<open>interval_start_time.timestamp() * 1000\<close>.
\<close>

definition update_interval_data ::
  "('f::plus, 'ind, 't, 'u) env \<Rightarrow> string \<Rightarrow> string \<Rightarrow> 'f frame \<Rightarrow> int \<Rightarrow>
   ('f, 'ind, 't, 'u) world \<Rightarrow> error option \<times> ('f, 'ind, 't, 'u) world" where
  "update_interval_data env table_name interval_name new_data_df current_time w =
     (case get_interval_start_time current_time interval_name of
        Inl e \<Rightarrow> (Some e, w)
      | Inr interval_start_time \<Rightarrow>
          (case ohlcv_get_by_timestamp env (ohlcv_table w table_name)
                  (interval_start_time * 1000) of
             Inl e \<Rightarrow> (Some e, w)
           | Inr existing_df \<Rightarrow>
               (case (case existing_df of
                        None \<Rightarrow>
                          create_new_interval_record interval_start_time interval_name
                            new_data_df
                      | Some existing \<Rightarrow>
                          if length existing > 0
                          then update_interval_record (to_float64 env) existing new_data_df
                          else create_new_interval_record interval_start_time
                            interval_name new_data_df) of
                  Inl e \<Rightarrow> (Some e, w)
                | Inr updated_df \<Rightarrow>
                    repository_update env table_name updated_df MatchTimestamp w)))"

text \<open>
  \<^verbatim>\<open>update_ohlcv_data()\<close>. \<^verbatim>\<open>raw_data[0]\<close> raises \<^verbatim>\<open>IndexError\<close> on an empty list;
  \<^verbatim>\<open>datetime.fromtimestamp(ms // 1000)\<close> is the epoch second \<open>ms div 1000\<close>.
\<close>

definition update_ohlcv_data ::
  "('f::plus, 'ind, 't, 'u) env \<Rightarrow> ('f, 'ind, 't, 'u) world \<Rightarrow>
   error option \<times> ('f, 'ind, 't, 'u) world" where
  "update_ohlcv_data env w =
     (case get_current_ohlcv env COINS ''30m'' of
        Inl e \<Rightarrow> (Some e, w)
      | Inr raw_data \<Rightarrow>
          (case raw_data of
             [] \<Rightarrow> (Some IndexError, w)
           | first # _ \<Rightarrow>
               (let current_time = timestamp first div 1000; df = raw_data
                in case repository_update env ''ohlcv_raw'' df MatchTimestamp w of
                     (Some e, w') \<Rightarrow> (Some e, w')
                   | (None, w') \<Rightarrow>
                       for_each
                         (\<lambda>interval_name.
                            update_interval_data env (''ohlcv_'' @ interval_name)
                              interval_name df current_time)
                         (tl interval_names) w')))"

section \<open>Indicators\<close>

text \<open>
  The body of the loop over the symbols of one resolution in
  \<^verbatim>\<open>update_indicators_data()\<close>: the computation and the update stand in one \<^verbatim>\<open>try\<close>
  whose \<^verbatim>\<open>except Exception\<close> logs and continues.
\<close>

definition update_symbol_indicators ::
  "('f, 'ind, 't, 'u) env \<Rightarrow> string \<Rightarrow> 'f frame \<Rightarrow> string \<Rightarrow>
   ('f, 'ind, 't, 'u) world \<Rightarrow> error option \<times> ('f, 'ind, 't, 'u) world" where
  "update_symbol_indicators env interval_name df s w =
     (let symbol_df = filter (\<lambda>r. symbol r = s) df;
          table_name = ''indicators_'' @ interval_name
      in if length symbol_df = 0 then (None, w)
         else
           (case (case calculate_ta_indicators env symbol_df of
                    Inl e \<Rightarrow> Inl e
                  | Inr indicators \<Rightarrow>
                      (case indicators_update env (indicators_table w table_name)
                              indicators MatchTimestampAndSymbol of
                         Inl e \<Rightarrow> Inl e
                       | Inr u \<Rightarrow> Inr (indicators, u))) of
              Inl e \<Rightarrow>
                (None, w\<lparr>logged := logged w @
                   [ERROR (''Error calculating indicators for '' @ s @ '': '') e]\<rparr>)
            | Inr (indicators, u) \<Rightarrow>
                (None, w\<lparr>indicators_table := (indicators_table w)(table_name := u),
                          updates := updates w @
                            [IndicatorsUpdate table_name indicators
                               MatchTimestampAndSymbol]\<rparr>)))"

text \<open>
  The body of the loop over the resolutions. \<^verbatim>\<open>df.sort(by=["symbol", "timestamp"])\<close>
  orders the rows by symbol, then timestamp (rows equal in both keep their order here);
  \<^verbatim>\<open>df["symbol"].unique()\<close> lists the symbols in the order the environment gives.
\<close>

definition update_interval_indicators ::
  "('f, 'ind, 't, 'u) env \<Rightarrow> string \<Rightarrow> ('f, 'ind, 't, 'u) world \<Rightarrow>
   error option \<times> ('f, 'ind, 't, 'u) world" where
  "update_interval_indicators env interval_name w =
     (let w1 = w\<lparr>logged := logged w @
                 [INFO (''Updating indicators for '' @ interval_name @ '' interval'')]\<rparr>
      in case ohlcv_get_all env (ohlcv_table w1 (''ohlcv_'' @ interval_name)) of
           Inl e \<Rightarrow> (Some e, w1)
         | Inr None \<Rightarrow> (None, w1)
         | Inr (Some df) \<Rightarrow>
             if length df = 0 then (None, w1)
             else
               (let sorted_df = sort_key (\<lambda>r. (symbol r, timestamp r)) df
                in for_each (update_symbol_indicators env interval_name sorted_df)
                     (unique env (map symbol sorted_df)) w1))"

definition update_indicators_data ::
  "('f, 'ind, 't, 'u) env \<Rightarrow> ('f, 'ind, 't, 'u) world \<Rightarrow>
   error option \<times> ('f, 'ind, 't, 'u) world" where
  "update_indicators_data env w = for_each (update_interval_indicators env) interval_names w"

section \<open>Seeding\<close>

text \<open>The body of the loop of \<^verbatim>\<open>seed()\<close> over the resolutions.\<close>

definition seed_interval ::
  "('f, 'ind, 't, 'u) env \<Rightarrow> string \<Rightarrow> ('f, 'ind, 't, 'u) world \<Rightarrow>
   error option \<times> ('f, 'ind, 't, 'u) world" where
  "seed_interval env interval_name w =
     (let w1 = w\<lparr>logged := logged w @
                 [INFO (''Seeding '' @ interval_name @ '' interval'')]\<rparr>;
          interval = (if interval_name = ''raw'' then ''30m'' else interval_name)
      in case get_historical_ohlcv env COINS interval
                (if interval_name = ''raw'' then 1000 else 100) of
           Inl e \<Rightarrow> (Some e, w1)
         | Inr raw_data \<Rightarrow>
             if raw_data = [] then (None, w1)
             else repository_update env (''ohlcv_'' @ interval_name) raw_data
                    MatchTimestamp w1)"

definition seed ::
  "('f, 'ind, 't, 'u) env \<Rightarrow> ('f, 'ind, 't, 'u) world \<Rightarrow>
   error option \<times> ('f, 'ind, 't, 'u) world" where
  "seed env w =
     (case for_each (seed_interval env) interval_names w of
        (Some e, w') \<Rightarrow> (Some e, w')
      | (None, w') \<Rightarrow> update_indicators_data env w')"

text \<open>\<^verbatim>\<open>data_ingestion_job()\<close> without its log line, which holds the time of day.\<close>

definition data_ingestion_job ::
  "('f::plus, 'ind, 't, 'u) env \<Rightarrow> ('f, 'ind, 't, 'u) world \<Rightarrow>
   error option \<times> ('f, 'ind, 't, 'u) world" where
  "data_ingestion_job env w =
     (case update_ohlcv_data env w of
        (Some e, w') \<Rightarrow> (Some e, w')
      | (None, w') \<Rightarrow> update_indicators_data env w')"

section \<open>Provider selection\<close>

text \<open>
  The import at the head of the scheduler, as a function of the process environment
  (\<^verbatim>\<open>os.environ.get\<close> returns \<^verbatim>\<open>None\<close> for a variable that is not set).
\<close>

datatype provider =
  BinanceCoinPriceDataProvider
  | CoinPaprikaCoinPriceDataProvider
  | DummyCoinPriceDataProvider

definition DataProvider :: "(string \<rightharpoonup> string) \<Rightarrow> provider" where
  "DataProvider environ =
     (if environ ''DATA_PROVIDER'' = Some ''binance'' then BinanceCoinPriceDataProvider
      else if environ ''DATA_PROVIDER'' = Some ''coinpaprika''
        then CoinPaprikaCoinPriceDataProvider
      else DummyCoinPriceDataProvider)"

section \<open>The plugins of the graph harness\<close>

text \<open>
  A plugin descriptor, with the fields the registry entry of
  \<^verbatim>\<open>solana_bonk_educator\<close> sets and the \<^verbatim>\<open>exclude\<close> flag \<^verbatim>\<open>test_chat\<close> reads.
\<close>

record 'tool plugin =
  name :: string
  description :: string
  owner :: string
  tools :: "'tool list"
  image_url :: string
  exclude :: bool

definition plugin_names :: "string list" where
  "plugin_names =
     [''wallet'', ''QuantaraAI'', ''coin-technical-analyzer'',
      ''coin-technical-chart-searcher'']"

text \<open>
  \<^verbatim>\<open>[registry.plugins[plugin_name]() for plugin_name in plugin_names]\<close>: a slug the
  registry does not hold raises \<^verbatim>\<open>KeyError\<close>.
\<close>

fun instantiate :: "(string \<rightharpoonup> 'tool plugin) \<Rightarrow> string list \<Rightarrow> error + 'tool plugin list" where
  "instantiate plugins [] = Inr []"
| "instantiate plugins (plugin_name # rest) =
     (case plugins plugin_name of
        None \<Rightarrow> Inl (KeyError plugin_name)
      | Some p \<Rightarrow>
          (case instantiate plugins rest of
             Inl e \<Rightarrow> Inl e
           | Inr ps \<Rightarrow> Inr (p # ps)))"

text \<open>\<^verbatim>\<open>[p for p in plugins if p.exclude is False]\<close>.\<close>

definition drop_excluded :: "'tool plugin list \<Rightarrow> 'tool plugin list" where
  "drop_excluded plugins = [p \<leftarrow> plugins. exclude p = False]"

text \<open>The plugin list \<^verbatim>\<open>test_chat()\<close> hands to \<^verbatim>\<open>create_graph\<close>.\<close>

definition test_chat_plugins :: "(string \<rightharpoonup> 'tool plugin) \<Rightarrow> error + 'tool plugin list" where
  "test_chat_plugins registry_plugins =
     (case instantiate registry_plugins plugin_names of
        Inl e \<Rightarrow> Inl e
      | Inr plugins \<Rightarrow> Inr (drop_excluded plugins))"

section \<open>A repository in memory\<close>

text \<open>
  Modelled from the spec: the storage repository (\<^verbatim>\<open>libs.repositories\<close>, which is not
  among the source files). The spec gives an upsert as an insert-or-update keyed by a
  match predicate over one or more fields, with the whole batch upserted together: the
  rows of the table that a row of the batch matches are superseded, and the batch is
  written. The source row is \<open>s\<close>, the target row \<open>t\<close>, each given by its
  (timestamp, symbol) pair.
\<close>

fun matches :: "predicate \<Rightarrow> int \<times> string \<Rightarrow> int \<times> string \<Rightarrow> bool" where
  "matches MatchTimestamp s t = (fst s = fst t)"
| "matches MatchTimestampAndSymbol s t = (fst s = fst t \<and> snd s = snd t)"

definition upsert :: "('r \<Rightarrow> int \<times> string) \<Rightarrow> predicate \<Rightarrow> 'r list \<Rightarrow> 'r list \<Rightarrow> 'r list" where
  "upsert key p table batch =
     [t \<leftarrow> table. \<not> (\<exists>s \<in> set batch. matches p (key s) (key t))] @ batch"

definition ohlcv_key :: "'f ohlcv \<Rightarrow> int \<times> string" where
  "ohlcv_key r = (timestamp r, symbol r)"

text \<open>At most one record per (timestamp, symbol) pair.\<close>

definition unique_keys :: "('r \<Rightarrow> int \<times> string) \<Rightarrow> 'r list \<Rightarrow> bool" where
  "unique_keys key table = distinct (map key table)"

text \<open>
  Modelled from the spec: an indicator record is a timestamp, a symbol and a derived
  value.
\<close>

type_synonym 'f indicator = "int \<times> string \<times> 'f"

definition indicator_key :: "'f indicator \<Rightarrow> int \<times> string" where
  "indicator_key r = (fst r, fst (snd r))"

text \<open>
  Modelled from the spec: \<^verbatim>\<open>get_all\<close> and \<^verbatim>\<open>get_by_timestamp\<close> return the table, or its
  rows at one timestamp; no call of this repository raises. The provider and the
  indicator computation stay parameters; the distinct symbols are listed in the order
  of their first occurrence.
\<close>

definition memory_repository ::
  "(int \<Rightarrow> 'f) \<Rightarrow> (string list \<Rightarrow> string \<Rightarrow> error + 'f frame) \<Rightarrow>
   (string list \<Rightarrow> string \<Rightarrow> int \<Rightarrow> error + 'f frame) \<Rightarrow>
   ('f frame \<Rightarrow> error + 'f indicator list) \<Rightarrow>
   ('f, 'f indicator list, 'f frame, 'f indicator list) env" where
  "memory_repository cv current historical indicators =
     \<lparr>to_float64 = cv,
      unique = remdups,
      get_current_ohlcv = current,
      get_historical_ohlcv = historical,
      calculate_ta_indicators = indicators,
      ohlcv_get_all = (\<lambda>t. Inr (Some t)),
      ohlcv_get_by_timestamp = (\<lambda>t ms. Inr (Some [r \<leftarrow> t. timestamp r = ms])),
      ohlcv_update = (\<lambda>t df p. Inr (upsert ohlcv_key p t df)),
      indicators_update = (\<lambda>u rows p. Inr (upsert indicator_key p u rows))\<rparr>"

section \<open>Sample data\<close>

text \<open>
  Rows and an environment on which the definitions are evaluated. The sample indicator
  is the series of closes of a symbol, and fails on a series of fewer than two rows.
\<close>

definition candle :: "int \<Rightarrow> string \<Rightarrow> real \<Rightarrow> real \<Rightarrow> real \<Rightarrow> real \<Rightarrow> real \<Rightarrow> real ohlcv" where
  "candle ts s op hi lo cl vo =
     \<lparr>timestamp = ts, symbol = s, open = Float64 op, high = Float64 hi, low = Float64 lo,
      close = Float64 cl, volume = Float64 vo\<rparr>"

definition bucket :: "real ohlcv" where
  "bucket = candle 1700002800000 ''BTC'' 10 12 9 10 100"

definition observation :: "real ohlcv" where
  "observation = candle 1700004600000 ''BTC'' 10 13 8 11 50"

definition eth_bucket :: "real ohlcv" where
  "eth_bucket = candle 1700002800000 ''ETH'' 2 3 1 2 7"

definition eth_observation :: "real ohlcv" where
  "eth_observation = candle 1700004600000 ''ETH'' 2 4 2 3 5"



definition closes :: "real frame \<Rightarrow> error + real indicator list" where
  "closes df =
     (if length df < 2 then Inl (Exception ''not enough rows'')
      else Inr (map (\<lambda>r. (timestamp r, symbol r, cast_Float64 real_of_int (close r))) df))"

definition sample_env ::
  "(error + real frame) \<Rightarrow> (string \<Rightarrow> error + real frame) \<Rightarrow>
   (real, real indicator list, real frame, real indicator list) env" where
  "sample_env current historical =
     memory_repository real_of_int (\<lambda>coins interval. current)
       (\<lambda>coins interval limit. historical interval) closes"

definition empty_world :: "(real, real indicator list, real frame, real indicator list) world" where
  "empty_world =
     \<lparr>ohlcv_table = (\<lambda>table_name. []), indicators_table = (\<lambda>table_name. []),
      updates = [], logged = []\<rparr>"

definition sample_world :: "(real, real indicator list, real frame, real indicator list) world" where
  "sample_world =
     empty_world\<lparr>ohlcv_table := (\<lambda>table_name. [])
       (''ohlcv_raw'' := [eth_observation, bucket, eth_bucket],
        ''ohlcv_1h'' := [observation, bucket])\<rparr>"

definition refresh_world :: "(real, real indicator list, real frame, real indicator list) world" where
  "refresh_world =
     empty_world\<lparr>ohlcv_table := (\<lambda>table_name. [])
       (''ohlcv_raw'' := [bucket, eth_bucket], ''ohlcv_1h'' := [bucket, eth_bucket])\<rparr>"

definition sample_history :: "string \<Rightarrow> error + real frame" where
  "sample_history interval = (if interval = ''4h'' then Inr [] else Inr [bucket, observation])"

definition wallet :: "string plugin" where
  "wallet =
     \<lparr>name = ''Wallet'', description = ''Balances and transfers'', owner = ''core'',
      tools = [''get_balance''], image_url = ''wallet.png'', exclude = False\<rparr>"

definition analyzer :: "string plugin" where
  "analyzer =
     \<lparr>name = ''Coin Technical Analyzer'', description = ''Indicators of a coin'',
      owner = ''core'', tools = [''analyze''], image_url = ''analyzer.png'',
      exclude = True\<rparr>"

definition searcher :: "string plugin" where
  "searcher =
     \<lparr>name = ''Coin Technical Chart Searcher'', description = ''Chart patterns'',
      owner = ''core'', tools = [''search''], image_url = ''searcher.png'',
      exclude = False\<rparr>"

section \<open>Reading the state\<close>

text \<open>
  The key of an update as the specification gives it (the raw table on the timestamp,
  every other table on the timestamp and the symbol), and as the code passes it.
\<close>

fun keyed_as_claimed :: "('f, 'ind) upsert \<Rightarrow> bool" where
  "keyed_as_claimed (OhlcvUpdate table_name df p) =
     (p = (if table_name = ''ohlcv_raw'' then MatchTimestamp else MatchTimestampAndSymbol))"
| "keyed_as_claimed (IndicatorsUpdate table_name rows p) = (p = MatchTimestampAndSymbol)"

fun keyed_as_coded :: "('f, 'ind) upsert \<Rightarrow> bool" where
  "keyed_as_coded (OhlcvUpdate table_name df p) = (p = MatchTimestamp)"
| "keyed_as_coded (IndicatorsUpdate table_name rows p) = (p = MatchTimestampAndSymbol)"

text \<open>The table and the match predicate of an update.\<close>

fun update_key :: "('f, 'ind) upsert \<Rightarrow> string \<times> predicate" where
  "update_key (OhlcvUpdate table_name df p) = (table_name, p)"
| "update_key (IndicatorsUpdate table_name rows p) = (table_name, p)"

text \<open>
  The effect of a list of updates on the indicator tables: each update of an indicator
  table is made again, in order, through the repository.
\<close>

fun apply_update ::
  "('f, 'ind, 't, 'u) env \<Rightarrow> ('f, 'ind) upsert \<Rightarrow> (string \<Rightarrow> 'u) \<Rightarrow> (string \<Rightarrow> 'u)" where
  "apply_update env (IndicatorsUpdate table_name rows p) tables =
     (case indicators_update env (tables table_name) rows p of
        Inl e \<Rightarrow> tables
      | Inr u \<Rightarrow> tables(table_name := u))"
| "apply_update env (OhlcvUpdate table_name df p) tables = tables"

definition replay ::
  "('f, 'ind, 't, 'u) env \<Rightarrow> ('f, 'ind) upsert list \<Rightarrow> (string \<Rightarrow> 'u) \<Rightarrow> (string \<Rightarrow> 'u)" where
  "replay env us tables = foldl (\<lambda>t u. apply_update env u t) tables us"

text \<open>The updates and the log lines that a later state has and an earlier one has not.\<close>

definition new_updates ::
  "('f, 'ind, 't, 'u) world \<Rightarrow> ('f, 'ind, 't, 'u) world \<Rightarrow> ('f, 'ind) upsert list" where
  "new_updates w w' = drop (length (updates w)) (updates w')"

definition new_lines ::
  "('f, 'ind, 't, 'u) world \<Rightarrow> ('f, 'ind, 't, 'u) world \<Rightarrow> log_record list" where
  "new_lines w w' = drop (length (logged w)) (logged w')"

text \<open>
  A state and a later one of a run that updates indicator tables only: the OHLCV tables
  are the same, the updates and the log have gained entries at their ends, and the
  indicator tables are the earlier ones with the new updates made.
\<close>

definition extends ::
  "('f, 'ind, 't, 'u) env \<Rightarrow> ('f, 'ind, 't, 'u) world \<Rightarrow> ('f, 'ind, 't, 'u) world \<Rightarrow> bool" where
  "extends env w w' \<longleftrightarrow>
     ohlcv_table w' = ohlcv_table w \<and>
     updates w' = updates w @ new_updates w w' \<and>
     indicators_table w' = replay env (new_updates w w') (indicators_table w) \<and>
     logged w' = logged w @ new_lines w w'"

section \<open>Loops\<close>

lemma for_each_append:
  "for_each body (xs @ ys) w =
     (case for_each body xs w of
        (Some e, w') \<Rightarrow> (Some e, w')
      | (None, w') \<Rightarrow> for_each body ys w')"
  by (induction xs arbitrary: w) (auto split: prod.splits option.splits)

lemma for_each_invariant:
  assumes "\<And>x w. P w \<Longrightarrow> P (snd (body x w))" and "P w"
  shows "P (snd (for_each body xs w))"
  using assms(2)
proof (induction xs arbitrary: w)
  case Nil
  then show ?case by simp
next
  case (Cons x xs)
  obtain e w1 where b: "body x w = (e, w1)" by (cases "body x w")
  have p1: "P w1" using assms(1) [OF Cons.prems, of x] b by simp
  show ?case
  proof (cases e)
    case None
    then show ?thesis using b Cons.IH [OF p1] by simp
  next
    case (Some a)
    then show ?thesis using b p1 by simp
  qed
qed

lemma seq_invariant:
  assumes "P (snd r)" and "\<And>w'. P w' \<Longrightarrow> P (snd (g w'))"
  shows "P (snd (case r of (Some e, w') \<Rightarrow> (Some e, w') | (None, w') \<Rightarrow> g w'))"
  using assms by (cases r; cases "fst r") auto

text \<open>
  A loop whose body raises nothing in the states \<open>G\<close> and moves along a reflexive and
  transitive relation \<open>R\<close>.
\<close>

lemma for_each_run:
  assumes ok: "\<And>x w'. x \<in> set xs \<Longrightarrow> G w' \<Longrightarrow>
      fst (body x w') = None \<and> R w' (snd (body x w')) \<and> G (snd (body x w'))"
    and refl: "\<And>w. R w w"
    and trans: "\<And>a b c. R a b \<Longrightarrow> R b c \<Longrightarrow> R a c"
    and g: "G w"
  shows "fst (for_each body xs w) = None \<and> R w (snd (for_each body xs w)) \<and>
    G (snd (for_each body xs w))"
  using ok g
proof (induction xs arbitrary: w)
  case Nil
  then show ?case by (simp add: refl)
next
  case (Cons x xs)
  have step: "fst (body x w) = None \<and> R w (snd (body x w)) \<and> G (snd (body x w))"
    using Cons.prems(1) [of x w] Cons.prems(2) by simp
  then obtain w1 where b: "body x w = (None, w1)"
    by (cases "body x w") auto
  have r1: "R w w1" and g1: "G w1" using step b by simp_all
  have rest: "fst (for_each body xs w1) = None \<and> R w1 (snd (for_each body xs w1)) \<and>
      G (snd (for_each body xs w1))"
    using Cons.IH [of w1] Cons.prems(1) g1 by simp
  then show ?case using b r1 trans by auto
qed

text \<open>
  In such a loop, what the body does at one element \<open>n\<close> of the list (a relation \<open>Q\<close>
  between the states before and after it) still holds between the first and the last
  state, when \<open>Q\<close> composes with \<open>R\<close> on both sides.
\<close>

lemma for_each_hit:
  assumes ok: "\<And>x w'. x \<in> set xs \<Longrightarrow> G w' \<Longrightarrow>
      fst (body x w') = None \<and> R w' (snd (body x w')) \<and> G (snd (body x w'))"
    and refl: "\<And>w. R w w"
    and trans: "\<And>a b c. R a b \<Longrightarrow> R b c \<Longrightarrow> R a c"
    and hit: "\<And>w'. G w' \<Longrightarrow> Q w' (snd (body n w'))"
    and left: "\<And>a b c. Q a b \<Longrightarrow> R b c \<Longrightarrow> Q a c"
    and right: "\<And>a b c. R a b \<Longrightarrow> Q b c \<Longrightarrow> Q a c"
    and n: "n \<in> set xs"
    and g: "G w"
  shows "Q w (snd (for_each body xs w))"
  using ok n g
proof (induction xs arbitrary: w)
  case Nil
  then show ?case by simp
next
  case (Cons x xs)
  have step: "fst (body x w) = None \<and> R w (snd (body x w)) \<and> G (snd (body x w))"
    using Cons.prems(1) [of x w] Cons.prems(3) by simp
  then obtain w1 where b: "body x w = (None, w1)"
    by (cases "body x w") auto
  have r1: "R w w1" and g1: "G w1" using step b by simp_all
  have ok': "\<And>y w'. y \<in> set xs \<Longrightarrow> G w' \<Longrightarrow>
      fst (body y w') = None \<and> R w' (snd (body y w')) \<and> G (snd (body y w'))"
    using Cons.prems(1) by simp
  show ?case
  proof (cases "x = n")
    case True
    have "Q w w1" using hit [OF Cons.prems(3)] b True by simp
    moreover have "R w1 (snd (for_each body xs w1))"
      using for_each_run [of xs G body R w1, OF ok' refl trans g1] by simp
    ultimately have "Q w (snd (for_each body xs w1))" by (rule left)
    then show ?thesis using b by simp
  next
    case False
    then have "n \<in> set xs" using Cons.prems(2) by simp
    then have "Q w1 (snd (for_each body xs w1))"
      using Cons.IH [of w1] ok' g1 by simp
    then have "Q w (snd (for_each body xs w1))" using r1 right by blast
    then show ?thesis using b by simp
  qed
qed

section \<open>The interval merge\<close>

lemma DataFrame_rows:
  assumes "length sy = length ts" "length op = length ts" "length hi = length ts"
    "length lo = length ts" "length cl = length ts" "length vo = length ts"
  shows "DataFrame ts sy (Series op) (Series hi) (Series lo) (Series cl) (Series vo) =
    Inr (map (\<lambda>i. \<lparr>timestamp = ts ! i, symbol = sy ! i, open = op ! i, high = hi ! i,
                    low = lo ! i, close = cl ! i, volume = vo ! i\<rparr>) [0..<length ts])"
  using assms by (simp add: DataFrame_def)

lemma create_new_interval_record_rows:
  "create_new_interval_record interval_start_time interval_name new_data_df =
     Inr (map (\<lambda>r. r\<lparr>timestamp := interval_start_time * 1000\<rparr>) new_data_df)"
  unfolding create_new_interval_record_def
  by (subst DataFrame_rows) (auto intro!: nth_equalityI)

lemma DataFrame_Expr:
  "DataFrame ts sy (Series op) (Expr hi) lo_col cl_col vo_col = Inl TypeError"
  by (simp add: DataFrame_def)

lemma update_interval_record_raises:
  "update_interval_record cv existing_df new_data_df = Inl TypeError \<or>
   update_interval_record cv existing_df new_data_df = Inl ShapeError"
  by (auto simp: update_interval_record_def Let_def DataFrame_Expr add_series_def
      split: sum.splits)

lemma update_interval_record_TypeError:
  assumes "length existing_df = length new_data_df"
  shows "update_interval_record cv existing_df new_data_df = Inl TypeError"
  using assms
  by (simp add: update_interval_record_def Let_def DataFrame_Expr add_series_def
      with_columns_cast_def)


text \<open>
  Claim C2. The claim is the merge of an existing bucket row with a new observation
  row: open kept, maximum of the highs, minimum of the lows, close of the observation,
  sum of the volumes. The function builds no row. On the example of the spec (a bucket
  with open 10, high 12, low 9, volume 100 and an observation with high 13, low 8,
  close 11, volume 50) \<^verbatim>\<open>pl.DataFrame\<close> is given the expressions of
  \<^verbatim>\<open>pl.max_horizontal\<close> and \<^verbatim>\<open>pl.min_horizontal\<close> and raises \<^verbatim>\<open>TypeError\<close>.
\<close>

theorem update_interval_record_example:
  "update_interval_record real_of_int [bucket] [observation] = Inl TypeError"
  by (simp add: update_interval_record_TypeError)




text \<open>
  Claim C10. The claim is a frame whose row \<open>i\<close> pairs row \<open>i\<close> of the existing frame
  with row \<open>i\<close> of the new frame. The function returns no frame, for no pair of frames;
  for two frames of one height it raises \<^verbatim>\<open>TypeError\<close> when it calls \<^verbatim>\<open>pl.DataFrame\<close>.
\<close>

theorem update_interval_record_no_frame:
  "update_interval_record cv existing_df new_data_df \<noteq> Inr merged \<and>
   (length existing_df = length new_data_df \<longrightarrow>
      update_interval_record cv existing_df new_data_df = Inl TypeError)"
  using update_interval_record_raises [of cv existing_df new_data_df]
    update_interval_record_TypeError [of existing_df new_data_df cv]
  by auto

text \<open>Two frames that list BTC and ETH in opposite orders.\<close>

theorem update_interval_record_no_frame_witness:
  "length [bucket, eth_bucket] = length [eth_observation, observation] \<and>
   update_interval_record real_of_int [bucket, eth_bucket] [eth_observation, observation] =
     Inl TypeError"
  using update_interval_record_no_frame
    [of real_of_int "[bucket, eth_bucket]" "[eth_observation, observation]"]
  by simp

text \<open>
  Claim C4. The claim is the record that the interval update creates when no bucket is
  found. The interval update creates no record: its first line calls
  \<^verbatim>\<open>get_interval_start_time\<close>, a name the module does not define, and raises
  \<^verbatim>\<open>NameError\<close> before it looks the bucket up; the state is the one it started from.
  (\<open>create_new_interval_record_rows\<close> is what \<^verbatim>\<open>create_new_interval_record\<close> returns when
  it is called with a start time.)
\<close>

theorem update_interval_data_NameError:
  "update_interval_data env table_name interval_name new_data_df current_time w =
     (Some (NameError ''get_interval_start_time''), w)"
  by (simp add: update_interval_data_def get_interval_start_time_def)

section \<open>The indicator update\<close>

lemma replay_append: "replay env (xs @ ys) t = replay env ys (replay env xs t)"
  by (simp add: replay_def)

lemma extendsI:
  assumes "ohlcv_table w' = ohlcv_table w"
    and "updates w' = updates w @ new"
    and "indicators_table w' = replay env new (indicators_table w)"
    and "logged w' = logged w @ lines"
  shows "extends env w w'" and "new_updates w w' = new" and "new_lines w w' = lines"
  using assms by (simp_all add: extends_def new_updates_def new_lines_def)

lemma extends_refl: "extends env w w"
  by (rule extendsI(1) [where new = "[]" and lines = "[]"]) (simp_all add: replay_def)

lemma extends_trans:
  assumes ab: "extends env a b" and bc: "extends env b c"
  shows "extends env a c"
    and "new_updates a c = new_updates a b @ new_updates b c"
    and "new_lines a c = new_lines a b @ new_lines b c"
proof -
  have t: "ohlcv_table c = ohlcv_table a"
    using ab bc by (simp add: extends_def)
  have u: "updates c = updates a @ (new_updates a b @ new_updates b c)"
    using ab bc by (metis append.assoc extends_def)
  have l: "logged c = logged a @ (new_lines a b @ new_lines b c)"
    using ab bc by (metis append.assoc extends_def)
  have i: "indicators_table c =
      replay env (new_updates a b @ new_updates b c) (indicators_table a)"
    using ab bc by (simp add: extends_def replay_append)
  show "extends env a c" using t u i l by (rule extendsI(1))
  show "new_updates a c = new_updates a b @ new_updates b c"
    using t u i l by (rule extendsI(2))
  show "new_lines a c = new_lines a b @ new_lines b c"
    using t u i l by (rule extendsI(3))
qed

lemma item_left:
  assumes "extends env a b \<and> item \<in> set (new_updates a b)" and "extends env b c"
  shows "extends env a c \<and> item \<in> set (new_updates a c)"
  using assms extends_trans(1,2) [of env a b c] by simp

lemma item_right:
  assumes "extends env a b" and "extends env b c \<and> item \<in> set (new_updates b c)"
  shows "extends env a c \<and> item \<in> set (new_updates a c)"
  using assms extends_trans(1,2) [of env a b c] by simp

lemma line_left:
  assumes "extends env a b \<and> line \<in> set (new_lines a b)" and "extends env b c"
  shows "extends env a c \<and> line \<in> set (new_lines a c)"
  using assms extends_trans(1,3) [of env a b c] by simp

lemma line_right:
  assumes "extends env a b" and "extends env b c \<and> line \<in> set (new_lines b c)"
  shows "extends env a c \<and> line \<in> set (new_lines a c)"
  using assms extends_trans(1,3) [of env a b c] by simp

lemma update_symbol_indicators_success:
  assumes "[r \<leftarrow> df. symbol r = s] \<noteq> []"
    and "calculate_ta_indicators env [r \<leftarrow> df. symbol r = s] = Inr ind"
    and "indicators_update env (indicators_table w (''indicators_'' @ n)) ind
           MatchTimestampAndSymbol = Inr u'"
  shows "update_symbol_indicators env n df s w =
    (None, w\<lparr>indicators_table := (indicators_table w)(''indicators_'' @ n := u'),
              updates := updates w @
                [IndicatorsUpdate (''indicators_'' @ n) ind MatchTimestampAndSymbol]\<rparr>)"
  using assms by (simp add: update_symbol_indicators_def Let_def)

lemma update_symbol_indicators_failure:
  assumes "[r \<leftarrow> df. symbol r = s] \<noteq> []"
    and "calculate_ta_indicators env [r \<leftarrow> df. symbol r = s] = Inl e"
  shows "update_symbol_indicators env n df s w =
    (None, w\<lparr>logged := logged w @
       [ERROR (''Error calculating indicators for '' @ s @ '': '') e]\<rparr>)"
  using assms by (simp add: update_symbol_indicators_def Let_def)

lemma update_symbol_indicators_run:
  "fst (update_symbol_indicators env n df s w) = None \<and>
   extends env w (snd (update_symbol_indicators env n df s w))"
proof -
  let ?rows = "[r \<leftarrow> df. symbol r = s]"
  let ?t = "''indicators_'' @ n"
  show ?thesis
  proof (cases "?rows = []")
    case True
    then show ?thesis
      by (simp add: update_symbol_indicators_def Let_def extends_refl)
  next
    case False
    have logs: "\<And>e. extends env w
        (w\<lparr>logged := logged w @ [ERROR (''Error calculating indicators for '' @ s @ '': '') e]\<rparr>)"
      by (rule extendsI(1) [where new = "[]"]) (simp_all add: replay_def)
    show ?thesis
    proof (cases "calculate_ta_indicators env ?rows")
      case (Inl e)
      then show ?thesis
        using False logs by (simp add: update_symbol_indicators_def Let_def)
    next
      case (Inr ind)
      show ?thesis
      proof (cases "indicators_update env (indicators_table w ?t) ind MatchTimestampAndSymbol")
        case (Inl e)
        then show ?thesis
          using False Inr logs by (simp add: update_symbol_indicators_def Let_def)
      next
        case upd: (Inr u')
        have "extends env w
            (w\<lparr>indicators_table := (indicators_table w)(?t := u'),
               updates := updates w @ [IndicatorsUpdate ?t ind MatchTimestampAndSymbol]\<rparr>)"
          by (rule extendsI(1)
              [where new = "[IndicatorsUpdate ?t ind MatchTimestampAndSymbol]" and lines = "[]"])
            (use upd in \<open>simp_all add: replay_def\<close>)
        then show ?thesis
          using update_symbol_indicators_success [OF False Inr upd] by simp
      qed
    qed
  qed
qed

lemma symbols_run:
  "fst (for_each (update_symbol_indicators env n df) syms w) = None \<and>
   extends env w (snd (for_each (update_symbol_indicators env n df) syms w))"
proof -
  have "fst (for_each (update_symbol_indicators env n df) syms w) = None \<and>
      extends env w (snd (for_each (update_symbol_indicators env n df) syms w)) \<and> True"
  proof (rule for_each_run [where G = "\<lambda>w. True" and R = "extends env"])
    show "\<And>x w'. x \<in> set syms \<Longrightarrow> True \<Longrightarrow>
        fst (update_symbol_indicators env n df x w') = None \<and>
        extends env w' (snd (update_symbol_indicators env n df x w')) \<and> True"
      using update_symbol_indicators_run [of env n df] by simp
    show "\<And>w. extends env w w" by (rule extends_refl)
    show "\<And>a b c. extends env a b \<Longrightarrow> extends env b c \<Longrightarrow> extends env a c"
      by (rule extends_trans(1))
    show True ..
  qed
  then show ?thesis by simp
qed

lemma symbols_success:
  assumes "s \<in> set syms"
    and rows: "[r \<leftarrow> df. symbol r = s] \<noteq> []"
    and calc: "calculate_ta_indicators env [r \<leftarrow> df. symbol r = s] = Inr ind"
    and upd: "\<forall>u. \<exists>u'. indicators_update env u ind MatchTimestampAndSymbol = Inr u'"
  shows "extends env w (snd (for_each (update_symbol_indicators env n df) syms w)) \<and>
    IndicatorsUpdate (''indicators_'' @ n) ind MatchTimestampAndSymbol
      \<in> set (new_updates w (snd (for_each (update_symbol_indicators env n df) syms w)))"
proof (rule for_each_hit
    [where G = "\<lambda>w. True" and R = "extends env" and n = s and
      Q = "\<lambda>a b. extends env a b \<and>
        IndicatorsUpdate (''indicators_'' @ n) ind MatchTimestampAndSymbol
          \<in> set (new_updates a b)"])
  fix w' :: "('a, 'b, 'c, 'd) world"
  let ?t = "''indicators_'' @ n"
  obtain u' where u: "indicators_update env (indicators_table w' ?t) ind
      MatchTimestampAndSymbol = Inr u'"
    using upd by blast
  let ?w2 = "w'\<lparr>indicators_table := (indicators_table w')(?t := u'),
      updates := updates w' @ [IndicatorsUpdate ?t ind MatchTimestampAndSymbol]\<rparr>"
  have e: "extends env w' ?w2"
    by (rule extendsI(1)
        [where new = "[IndicatorsUpdate ?t ind MatchTimestampAndSymbol]" and lines = "[]"])
      (use u in \<open>simp_all add: replay_def\<close>)
  have nu: "new_updates w' ?w2 = [IndicatorsUpdate ?t ind MatchTimestampAndSymbol]"
    by (rule extendsI(2) [where env = env and lines = "[]"])
      (use u in \<open>simp_all add: replay_def\<close>)
  show "extends env w' (snd (update_symbol_indicators env n df s w')) \<and>
    IndicatorsUpdate ?t ind MatchTimestampAndSymbol
      \<in> set (new_updates w' (snd (update_symbol_indicators env n df s w')))"
    using update_symbol_indicators_success [OF rows calc u] e nu by simp
next
  show "\<And>x w'. x \<in> set syms \<Longrightarrow> True \<Longrightarrow>
      fst (update_symbol_indicators env n df x w') = None \<and>
      extends env w' (snd (update_symbol_indicators env n df x w')) \<and> True"
    using update_symbol_indicators_run [of env n df] by simp
  show "\<And>w. extends env w w" by (rule extends_refl)
  show "\<And>a b c. extends env a b \<Longrightarrow> extends env b c \<Longrightarrow> extends env a c"
    by (rule extends_trans(1))
  show "s \<in> set syms" by fact
  show True ..
qed (rule item_left item_right; assumption)+

lemma symbols_failure:
  assumes "s \<in> set syms"
    and rows: "[r \<leftarrow> df. symbol r = s] \<noteq> []"
    and calc: "calculate_ta_indicators env [r \<leftarrow> df. symbol r = s] = Inl e"
  shows "extends env w (snd (for_each (update_symbol_indicators env n df) syms w)) \<and>
    ERROR (''Error calculating indicators for '' @ s @ '': '') e
      \<in> set (new_lines w (snd (for_each (update_symbol_indicators env n df) syms w)))"
proof (rule for_each_hit
    [where G = "\<lambda>w. True" and R = "extends env" and n = s and
      Q = "\<lambda>a b. extends env a b \<and>
        ERROR (''Error calculating indicators for '' @ s @ '': '') e \<in> set (new_lines a b)"])
  fix w' :: "('a, 'b, 'c, 'd) world"
  let ?w2 = "w'\<lparr>logged := logged w' @
      [ERROR (''Error calculating indicators for '' @ s @ '': '') e]\<rparr>"
  have e: "extends env w' ?w2"
    by (rule extendsI(1) [where new = "[]"]) (simp_all add: replay_def)
  have nl: "new_lines w' ?w2 = [ERROR (''Error calculating indicators for '' @ s @ '': '') e]"
    by (rule extendsI(3) [where env = env and new = "[]"]) (simp_all add: replay_def)
  show "extends env w' (snd (update_symbol_indicators env n df s w')) \<and>
    ERROR (''Error calculating indicators for '' @ s @ '': '') e
      \<in> set (new_lines w' (snd (update_symbol_indicators env n df s w')))"
    using update_symbol_indicators_failure [OF rows calc] e nl by simp
next
  show "\<And>x w'. x \<in> set syms \<Longrightarrow> True \<Longrightarrow>
      fst (update_symbol_indicators env n df x w') = None \<and>
      extends env w' (snd (update_symbol_indicators env n df x w')) \<and> True"
    using update_symbol_indicators_run [of env n df] by simp
  show "\<And>w. extends env w w" by (rule extends_refl)
  show "\<And>a b c. extends env a b \<Longrightarrow> extends env b c \<Longrightarrow> extends env a c"
    by (rule extends_trans(1))
  show "s \<in> set syms" by fact
  show True ..
qed (rule line_left line_right; assumption)+

lemma info_extends:
  "extends env w (w\<lparr>logged := logged w @ [INFO line]\<rparr>)"
  by (rule extendsI(1) [where new = "[]"]) (simp_all add: replay_def)

lemma update_interval_indicators_extends:
  "extends env w (snd (update_interval_indicators env n w))"
proof -
  let ?w1 = "w\<lparr>logged := logged w @
      [INFO (''Updating indicators for '' @ n @ '' interval'')]\<rparr>"
  have "extends env ?w1 (snd (update_interval_indicators env n w))"
    using symbols_run [of env n _ _ ?w1]
    by (auto simp: update_interval_indicators_def Let_def extends_refl
        split: sum.splits option.splits)
  then show ?thesis using info_extends extends_trans(1) by blast
qed

lemma update_interval_indicators_fst:
  assumes "ohlcv_get_all env (ohlcv_table w (''ohlcv_'' @ n)) = Inr r"
  shows "fst (update_interval_indicators env n w) = None"
  using assms
  by (auto simp: update_interval_indicators_def Let_def symbols_run
      split: sum.splits option.splits)

lemma symbol_rows_sorted:
  assumes "s \<in> symbol ` set df"
  shows "[r \<leftarrow> sort_key (\<lambda>r. (symbol r, timestamp r)) df. symbol r = s] \<noteq> []"
    and "df \<noteq> []"
proof -
  obtain r where r: "r \<in> set df" "symbol r = s" using assms by auto
  then have "r \<in> set [r \<leftarrow> sort_key (\<lambda>r. (symbol r, timestamp r)) df. symbol r = s]"
    by simp
  then show "[r \<leftarrow> sort_key (\<lambda>r. (symbol r, timestamp r)) df. symbol r = s] \<noteq> []"
    by (metis empty_iff empty_set)
  show "df \<noteq> []" using r by auto
qed

lemma update_interval_indicators_loop:
  assumes "ohlcv_get_all env (ohlcv_table w (''ohlcv_'' @ n)) = Inr (Some df)"
    and "df \<noteq> []"
  shows "update_interval_indicators env n w =
    for_each (update_symbol_indicators env n (sort_key (\<lambda>r. (symbol r, timestamp r)) df))
      (unique env (map symbol (sort_key (\<lambda>r. (symbol r, timestamp r)) df)))
      (w\<lparr>logged := logged w @
         [INFO (''Updating indicators for '' @ n @ '' interval'')]\<rparr>)"
  using assms by (simp add: update_interval_indicators_def Let_def)

lemma update_interval_indicators_success:
  assumes read: "ohlcv_get_all env (ohlcv_table w (''ohlcv_'' @ n)) = Inr (Some df)"
    and s: "s \<in> symbol ` set df"
    and listed: "symbol ` set df
      \<subseteq> set (unique env (map symbol (sort_key (\<lambda>r. (symbol r, timestamp r)) df)))"
    and calc: "calculate_ta_indicators env
           [r \<leftarrow> sort_key (\<lambda>r. (symbol r, timestamp r)) df. symbol r = s] = Inr ind"
    and upd: "\<forall>u. \<exists>u'. indicators_update env u ind MatchTimestampAndSymbol = Inr u'"
  shows "extends env w (snd (update_interval_indicators env n w)) \<and>
    IndicatorsUpdate (''indicators_'' @ n) ind MatchTimestampAndSymbol
      \<in> set (new_updates w (snd (update_interval_indicators env n w)))"
proof -
  let ?df = "sort_key (\<lambda>r. (symbol r, timestamp r)) df"
  let ?syms = "unique env (map symbol ?df)"
  let ?w1 = "w\<lparr>logged := logged w @
      [INFO (''Updating indicators for '' @ n @ '' interval'')]\<rparr>"
  have "s \<in> set (unique env (map symbol (sort_key (\<lambda>r. (symbol r, timestamp r)) df)))"
    using s listed by blast
  then have "extends env ?w1 (snd (for_each (update_symbol_indicators env n ?df) ?syms ?w1)) \<and>
      IndicatorsUpdate (''indicators_'' @ n) ind MatchTimestampAndSymbol
        \<in> set (new_updates ?w1
             (snd (for_each (update_symbol_indicators env n ?df) ?syms ?w1)))"
    using symbol_rows_sorted(1) [OF s] calc upd by (rule symbols_success)
  with info_extends show ?thesis
    unfolding update_interval_indicators_loop [OF read symbol_rows_sorted(2) [OF s]]
    by (rule item_right)
qed

lemma update_interval_indicators_failure:
  assumes read: "ohlcv_get_all env (ohlcv_table w (''ohlcv_'' @ n)) = Inr (Some df)"
    and s: "s \<in> symbol ` set df"
    and listed: "symbol ` set df
      \<subseteq> set (unique env (map symbol (sort_key (\<lambda>r. (symbol r, timestamp r)) df)))"
    and calc: "calculate_ta_indicators env
           [r \<leftarrow> sort_key (\<lambda>r. (symbol r, timestamp r)) df. symbol r = s] = Inl e"
  shows "extends env w (snd (update_interval_indicators env n w)) \<and>
    ERROR (''Error calculating indicators for '' @ s @ '': '') e
      \<in> set (new_lines w (snd (update_interval_indicators env n w)))"
proof -
  let ?df = "sort_key (\<lambda>r. (symbol r, timestamp r)) df"
  let ?syms = "unique env (map symbol ?df)"
  let ?w1 = "w\<lparr>logged := logged w @
      [INFO (''Updating indicators for '' @ n @ '' interval'')]\<rparr>"
  have "s \<in> set (unique env (map symbol (sort_key (\<lambda>r. (symbol r, timestamp r)) df)))"
    using s listed by blast
  then have "extends env ?w1 (snd (for_each (update_symbol_indicators env n ?df) ?syms ?w1)) \<and>
      ERROR (''Error calculating indicators for '' @ s @ '': '') e
        \<in> set (new_lines ?w1
             (snd (for_each (update_symbol_indicators env n ?df) ?syms ?w1)))"
    using symbol_rows_sorted(1) [OF s] calc by (rule symbols_failure)
  with info_extends show ?thesis
    unfolding update_interval_indicators_loop [OF read symbol_rows_sorted(2) [OF s]]
    by (rule line_right)
qed

lemma intervals_step:
  assumes reads: "\<forall>n \<in> set names.
      \<exists>r. ohlcv_get_all env (ohlcv_table w (''ohlcv_'' @ n)) = Inr r"
    and "x \<in> set names" and "ohlcv_table w' = ohlcv_table w"
  shows "fst (update_interval_indicators env x w') = None \<and>
    extends env w' (snd (update_interval_indicators env x w')) \<and>
    ohlcv_table (snd (update_interval_indicators env x w')) = ohlcv_table w"
proof -
  obtain r where "ohlcv_get_all env (ohlcv_table w' (''ohlcv_'' @ x)) = Inr r"
    using assms by auto
  then have "fst (update_interval_indicators env x w') = None"
    by (rule update_interval_indicators_fst)
  moreover have e: "extends env w' (snd (update_interval_indicators env x w'))"
    by (rule update_interval_indicators_extends)
  moreover have "ohlcv_table (snd (update_interval_indicators env x w')) = ohlcv_table w"
    using e assms(3) by (simp add: extends_def)
  ultimately show ?thesis by simp
qed

lemma intervals_run:
  assumes reads: "\<forall>n \<in> set names.
      \<exists>r. ohlcv_get_all env (ohlcv_table w (''ohlcv_'' @ n)) = Inr r"
  shows "fst (for_each (update_interval_indicators env) names w) = None \<and>
    extends env w (snd (for_each (update_interval_indicators env) names w)) \<and>
    ohlcv_table (snd (for_each (update_interval_indicators env) names w)) = ohlcv_table w"
proof (rule for_each_run
    [where G = "\<lambda>w'. ohlcv_table w' = ohlcv_table w" and R = "extends env"])
  show "\<And>x w'. x \<in> set names \<Longrightarrow> ohlcv_table w' = ohlcv_table w \<Longrightarrow>
      fst (update_interval_indicators env x w') = None \<and>
      extends env w' (snd (update_interval_indicators env x w')) \<and>
      ohlcv_table (snd (update_interval_indicators env x w')) = ohlcv_table w"
    using reads by (rule intervals_step)
  show "\<And>w. extends env w w" by (rule extends_refl)
  show "\<And>a b c. extends env a b \<Longrightarrow> extends env b c \<Longrightarrow> extends env a c"
    by (rule extends_trans(1))
  show "ohlcv_table w = ohlcv_table w" ..
qed

lemma intervals_hit:
  assumes reads: "\<forall>n \<in> set names.
      \<exists>r. ohlcv_get_all env (ohlcv_table w (''ohlcv_'' @ n)) = Inr r"
    and n: "n \<in> set names"
    and hit: "\<And>w'. ohlcv_table w' = ohlcv_table w \<Longrightarrow>
      Q w' (snd (update_interval_indicators env n w'))"
    and left: "\<And>a b c. Q a b \<Longrightarrow> extends env b c \<Longrightarrow> Q a c"
    and right: "\<And>a b c. extends env a b \<Longrightarrow> Q b c \<Longrightarrow> Q a c"
  shows "Q w (snd (for_each (update_interval_indicators env) names w))"
proof (rule for_each_hit
    [where G = "\<lambda>w'. ohlcv_table w' = ohlcv_table w" and R = "extends env" and n = n])
  show "\<And>x w'. x \<in> set names \<Longrightarrow> ohlcv_table w' = ohlcv_table w \<Longrightarrow>
      fst (update_interval_indicators env x w') = None \<and>
      extends env w' (snd (update_interval_indicators env x w')) \<and>
      ohlcv_table (snd (update_interval_indicators env x w')) = ohlcv_table w"
    using reads by (rule intervals_step)
  show "\<And>w. extends env w w" by (rule extends_refl)
  show "\<And>a b c. extends env a b \<Longrightarrow> extends env b c \<Longrightarrow> extends env a c"
    by (rule extends_trans(1))
  show "\<And>w'. ohlcv_table w' = ohlcv_table w \<Longrightarrow>
      Q w' (snd (update_interval_indicators env n w'))" by (rule hit)
  show "\<And>a b c. Q a b \<Longrightarrow> extends env b c \<Longrightarrow> Q a c" by (rule left)
  show "\<And>a b c. extends env a b \<Longrightarrow> Q b c \<Longrightarrow> Q a c" by (rule right)
  show "n \<in> set names" by fact
  show "ohlcv_table w = ohlcv_table w" ..
qed

lemma indicators_sample_run:
  "update_indicators_data (sample_env (Inr []) (\<lambda>i. Inr [])) sample_world =
     (None, sample_world\<lparr>
        indicators_table := (\<lambda>table_name. [])
          (''indicators_raw'' := [(1700002800000, ''ETH'', 2), (1700004600000, ''ETH'', 3)],
           ''indicators_1h'' := [(1700002800000, ''BTC'', 10), (1700004600000, ''BTC'', 11)]),
        updates :=
          [IndicatorsUpdate ''indicators_raw''
             [(1700002800000, ''ETH'', 2), (1700004600000, ''ETH'', 3)] MatchTimestampAndSymbol,
           IndicatorsUpdate ''indicators_1h''
             [(1700002800000, ''BTC'', 10), (1700004600000, ''BTC'', 11)] MatchTimestampAndSymbol],
        logged :=
          [INFO ''Updating indicators for raw interval'',
           ERROR ''Error calculating indicators for BTC: '' (Exception ''not enough rows''),
           INFO ''Updating indicators for 1h interval'',
           INFO ''Updating indicators for 4h interval'',
           INFO ''Updating indicators for 1d interval'']\<rparr>)"
  by (simp add: update_indicators_data_def interval_names_def update_interval_indicators_def
      update_symbol_indicators_def sample_env_def memory_repository_def sample_world_def
      empty_world_def upsert_def indicator_key_def closes_def bucket_def observation_def
      eth_bucket_def eth_observation_def candle_def Let_def)

text \<open>
  Claim C6. Let every read of an OHLCV table succeed. Then no exception leaves
  \<^verbatim>\<open>update_indicators_data()\<close>, whatever the indicator computation does; the run leaves
  the OHLCV tables as they were, and its indicator tables are the ones it started from
  with the updates of the run made, in order. For every resolution and every symbol of
  its table that \<^verbatim>\<open>unique()\<close> lists: when the computation for the symbol succeeds and the
  repository accepts its rows, the update of these rows is one of the updates of the
  run, whichever other symbols failed before or after it in any resolution, and the
  step of the symbol writes the table that the repository returns; when the computation
  raises, the error is one of the log lines of the run and the step of the symbol
  changes nothing else.
\<close>

theorem update_indicators_data_isolates_failures:
  assumes reads: "\<forall>n \<in> set interval_names.
      \<exists>r. ohlcv_get_all env (ohlcv_table w (''ohlcv_'' @ n)) = Inr r"
    and n: "n \<in> set interval_names"
    and read: "ohlcv_get_all env (ohlcv_table w (''ohlcv_'' @ n)) = Inr (Some df)"
    and s: "s \<in> symbol ` set df"
    and listed: "symbol ` set df
      \<subseteq> set (unique env (map symbol (sort_key (\<lambda>r. (symbol r, timestamp r)) df)))"
  shows "fst (update_indicators_data env w) = None \<and>
    ohlcv_table (snd (update_indicators_data env w)) = ohlcv_table w \<and>
    updates (snd (update_indicators_data env w)) =
      updates w @ new_updates w (snd (update_indicators_data env w)) \<and>
    indicators_table (snd (update_indicators_data env w)) =
      replay env (new_updates w (snd (update_indicators_data env w))) (indicators_table w) \<and>
    (\<forall>ind. calculate_ta_indicators env
             [r \<leftarrow> sort_key (\<lambda>r. (symbol r, timestamp r)) df. symbol r = s] = Inr ind \<and>
           (\<forall>u. \<exists>u'. indicators_update env u ind MatchTimestampAndSymbol = Inr u') \<longrightarrow>
       IndicatorsUpdate (''indicators_'' @ n) ind MatchTimestampAndSymbol
         \<in> set (new_updates w (snd (update_indicators_data env w))) \<and>
       (\<forall>w' u'. indicators_update env (indicators_table w' (''indicators_'' @ n)) ind
                  MatchTimestampAndSymbol = Inr u' \<longrightarrow>
          update_symbol_indicators env n
              (sort_key (\<lambda>r. (symbol r, timestamp r)) df) s w' =
            (None, w'\<lparr>indicators_table :=
                         (indicators_table w')(''indicators_'' @ n := u'),
                       updates := updates w' @
                         [IndicatorsUpdate (''indicators_'' @ n) ind
                            MatchTimestampAndSymbol]\<rparr>))) \<and>
    (\<forall>e. calculate_ta_indicators env
             [r \<leftarrow> sort_key (\<lambda>r. (symbol r, timestamp r)) df. symbol r = s] = Inl e \<longrightarrow>
       ERROR (''Error calculating indicators for '' @ s @ '': '') e
         \<in> set (new_lines w (snd (update_indicators_data env w))) \<and>
       (\<forall>w'. update_symbol_indicators env n
               (sort_key (\<lambda>r. (symbol r, timestamp r)) df) s w' =
             (None, w'\<lparr>logged := logged w' @
                [ERROR (''Error calculating indicators for '' @ s @ '': '') e]\<rparr>)))"
proof -
  let ?run = "for_each (update_interval_indicators env) interval_names w"
  let ?rows = "[r \<leftarrow> sort_key (\<lambda>r. (symbol r, timestamp r)) df. symbol r = s]"
  let ?t = "''indicators_'' @ n"
  have run: "fst ?run = None \<and> extends env w (snd ?run) \<and>
      ohlcv_table (snd ?run) = ohlcv_table w"
    using reads by (rule intervals_run)
  have rows: "?rows \<noteq> []" using s by (rule symbol_rows_sorted(1))
  have success: "IndicatorsUpdate ?t ind MatchTimestampAndSymbol
        \<in> set (new_updates w (snd ?run))"
    if calc: "calculate_ta_indicators env ?rows = Inr ind"
      and upd: "\<forall>u. \<exists>u'. indicators_update env u ind MatchTimestampAndSymbol = Inr u'"
    for ind
  proof -
    have "extends env w (snd ?run) \<and>
        IndicatorsUpdate ?t ind MatchTimestampAndSymbol \<in> set (new_updates w (snd ?run))"
    proof (rule intervals_hit [OF reads n, where Q = "\<lambda>a b. extends env a b \<and>
        IndicatorsUpdate ?t ind MatchTimestampAndSymbol \<in> set (new_updates a b)"])
      fix w' :: "('a, 'b, 'c, 'd) world"
      assume "ohlcv_table w' = ohlcv_table w"
      then have "ohlcv_get_all env (ohlcv_table w' (''ohlcv_'' @ n)) = Inr (Some df)"
        using read by simp
      then show "extends env w' (snd (update_interval_indicators env n w')) \<and>
          IndicatorsUpdate ?t ind MatchTimestampAndSymbol
            \<in> set (new_updates w' (snd (update_interval_indicators env n w')))"
        using s listed calc upd by (rule update_interval_indicators_success)
    qed (rule item_left item_right; assumption)+
    then show ?thesis by simp
  qed
  have failure: "ERROR (''Error calculating indicators for '' @ s @ '': '') e
        \<in> set (new_lines w (snd ?run))"
    if calc: "calculate_ta_indicators env ?rows = Inl e" for e
  proof -
    have "extends env w (snd ?run) \<and>
        ERROR (''Error calculating indicators for '' @ s @ '': '') e
          \<in> set (new_lines w (snd ?run))"
    proof (rule intervals_hit [OF reads n, where Q = "\<lambda>a b. extends env a b \<and>
        ERROR (''Error calculating indicators for '' @ s @ '': '') e \<in> set (new_lines a b)"])
      fix w' :: "('a, 'b, 'c, 'd) world"
      assume "ohlcv_table w' = ohlcv_table w"
      then have "ohlcv_get_all env (ohlcv_table w' (''ohlcv_'' @ n)) = Inr (Some df)"
        using read by simp
      then show "extends env w' (snd (update_interval_indicators env n w')) \<and>
          ERROR (''Error calculating indicators for '' @ s @ '': '') e
            \<in> set (new_lines w' (snd (update_interval_indicators env n w')))"
        using s listed calc by (rule update_interval_indicators_failure)
    qed (rule line_left line_right; assumption)+
    then show ?thesis by simp
  qed
  show ?thesis
    unfolding update_indicators_data_def
  proof (intro conjI allI impI)
    show "fst ?run = None" using run by simp
    show "ohlcv_table (snd ?run) = ohlcv_table w" using run by simp
    show "updates (snd ?run) = updates w @ new_updates w (snd ?run)"
      using run by (simp add: extends_def)
    show "indicators_table (snd ?run) =
        replay env (new_updates w (snd ?run)) (indicators_table w)"
      using run by (simp add: extends_def)
  next
    fix ind
    assume "calculate_ta_indicators env ?rows = Inr ind \<and>
      (\<forall>u. \<exists>u'. indicators_update env u ind MatchTimestampAndSymbol = Inr u')"
    then show "IndicatorsUpdate ?t ind MatchTimestampAndSymbol
        \<in> set (new_updates w (snd ?run))"
      using success by blast
  next
    fix ind and w' :: "('a, 'b, 'c, 'd) world" and u'
    assume "calculate_ta_indicators env ?rows = Inr ind \<and>
      (\<forall>u. \<exists>u'. indicators_update env u ind MatchTimestampAndSymbol = Inr u')"
    then have calc: "calculate_ta_indicators env ?rows = Inr ind" by (rule conjunct1)
    assume "indicators_update env (indicators_table w' ?t) ind MatchTimestampAndSymbol =
      Inr u'"
    with rows calc show "update_symbol_indicators env n
        (sort_key (\<lambda>r. (symbol r, timestamp r)) df) s w' =
      (None, w'\<lparr>indicators_table := (indicators_table w')(?t := u'),
                 updates := updates w' @
                   [IndicatorsUpdate ?t ind MatchTimestampAndSymbol]\<rparr>)"
      by (rule update_symbol_indicators_success)
  next
    fix e
    assume "calculate_ta_indicators env ?rows = Inl e"
    then show "ERROR (''Error calculating indicators for '' @ s @ '': '') e
        \<in> set (new_lines w (snd ?run))"
      by (rule failure)
  next
    fix e and w' :: "('a, 'b, 'c, 'd) world"
    assume "calculate_ta_indicators env ?rows = Inl e"
    with rows show "update_symbol_indicators env n
        (sort_key (\<lambda>r. (symbol r, timestamp r)) df) s w' =
      (None, w'\<lparr>logged := logged w' @
         [ERROR (''Error calculating indicators for '' @ s @ '': '') e]\<rparr>)"
      by (rule update_symbol_indicators_failure)
  qed
qed

text \<open>
  In the sample world the raw table holds one BTC row and two ETH rows: BTC fails, the
  rows of ETH are written to the indicator table after it, and so are those of BTC in
  the 1h table.
\<close>

theorem update_indicators_data_isolates_failures_witness:
  "ohlcv_get_all (sample_env (Inr []) (\<lambda>i. Inr [])) (ohlcv_table sample_world ''ohlcv_raw'') =
     Inr (Some [eth_observation, bucket, eth_bucket]) \<and>
   fst (update_indicators_data (sample_env (Inr []) (\<lambda>i. Inr [])) sample_world) = None \<and>
   indicators_table (snd (update_indicators_data (sample_env (Inr []) (\<lambda>i. Inr []))
       sample_world)) ''indicators_raw'' =
     [(1700002800000, ''ETH'', 2), (1700004600000, ''ETH'', 3)] \<and>
   indicators_table (snd (update_indicators_data (sample_env (Inr []) (\<lambda>i. Inr []))
       sample_world)) ''indicators_1h'' =
     [(1700002800000, ''BTC'', 10), (1700004600000, ''BTC'', 11)] \<and>
   new_updates sample_world (snd (update_indicators_data (sample_env (Inr []) (\<lambda>i. Inr []))
       sample_world)) =
     [IndicatorsUpdate ''indicators_raw''
        [(1700002800000, ''ETH'', 2), (1700004600000, ''ETH'', 3)] MatchTimestampAndSymbol,
      IndicatorsUpdate ''indicators_1h''
        [(1700002800000, ''BTC'', 10), (1700004600000, ''BTC'', 11)] MatchTimestampAndSymbol] \<and>
   ERROR ''Error calculating indicators for BTC: '' (Exception ''not enough rows'')
     \<in> set (new_lines sample_world (snd (update_indicators_data
          (sample_env (Inr []) (\<lambda>i. Inr [])) sample_world)))"
  using update_indicators_data_isolates_failures
      [of "sample_env (Inr []) (\<lambda>i. Inr [])" sample_world "''raw''"
          "[eth_observation, bucket, eth_bucket]" "''ETH''"]
    update_indicators_data_isolates_failures
      [of "sample_env (Inr []) (\<lambda>i. Inr [])" sample_world "''raw''"
          "[eth_observation, bucket, eth_bucket]" "''BTC''"]
  by (simp add: indicators_sample_run new_updates_def new_lines_def)
     (simp add: sample_env_def memory_repository_def sample_world_def empty_world_def)

section \<open>Seeding and refreshing\<close>

lemma seed_sample_run:
  "seed (sample_env (Inr []) sample_history) empty_world =
     (None, empty_world\<lparr>
        ohlcv_table := (\<lambda>table_name. [])
          (''ohlcv_raw'' := [bucket, observation], ''ohlcv_1h'' := [bucket, observation],
           ''ohlcv_1d'' := [bucket, observation]),
        indicators_table := (\<lambda>table_name. [])
          (''indicators_raw'' := [(1700002800000, ''BTC'', 10), (1700004600000, ''BTC'', 11)],
           ''indicators_1h'' := [(1700002800000, ''BTC'', 10), (1700004600000, ''BTC'', 11)],
           ''indicators_1d'' := [(1700002800000, ''BTC'', 10), (1700004600000, ''BTC'', 11)]),
        updates :=
          [OhlcvUpdate ''ohlcv_raw'' [bucket, observation] MatchTimestamp,
           OhlcvUpdate ''ohlcv_1h'' [bucket, observation] MatchTimestamp,
           OhlcvUpdate ''ohlcv_1d'' [bucket, observation] MatchTimestamp,
           IndicatorsUpdate ''indicators_raw''
             [(1700002800000, ''BTC'', 10), (1700004600000, ''BTC'', 11)] MatchTimestampAndSymbol,
           IndicatorsUpdate ''indicators_1h''
             [(1700002800000, ''BTC'', 10), (1700004600000, ''BTC'', 11)] MatchTimestampAndSymbol,
           IndicatorsUpdate ''indicators_1d''
             [(1700002800000, ''BTC'', 10), (1700004600000, ''BTC'', 11)] MatchTimestampAndSymbol],
        logged :=
          [INFO ''Seeding raw interval'', INFO ''Seeding 1h interval'',
           INFO ''Seeding 4h interval'', INFO ''Seeding 1d interval'',
           INFO ''Updating indicators for raw interval'',
           INFO ''Updating indicators for 1h interval'',
           INFO ''Updating indicators for 4h interval'',
           INFO ''Updating indicators for 1d interval'']\<rparr>)"
  by (simp add: seed_def seed_interval_def repository_update_def sample_history_def
      update_indicators_data_def interval_names_def update_interval_indicators_def
      update_symbol_indicators_def sample_env_def memory_repository_def
      empty_world_def upsert_def indicator_key_def ohlcv_key_def closes_def bucket_def observation_def
      candle_def Let_def)

text \<open>
  Claim C5. Let the historical fetch of one resolution return no rows. The step of
  \<^verbatim>\<open>seed()\<close> for that resolution raises nothing and changes the state by its log line
  only: no table is written, no update is made. \<^verbatim>\<open>seed()\<close> as a whole is the steps of the
  resolutions before it, that log line, the steps of the resolutions after it, and then
  the indicator update.
\<close>

theorem seed_skips_empty_result:
  assumes "interval_names = before @ interval_name # rest"
    and "get_historical_ohlcv env COINS
           (if interval_name = ''raw'' then ''30m'' else interval_name)
           (if interval_name = ''raw'' then 1000 else 100) = Inr []"
  shows "seed_interval env interval_name w =
      (None, w\<lparr>logged := logged w @ [INFO (''Seeding '' @ interval_name @ '' interval'')]\<rparr>) \<and>
    seed env w0 =
      (case for_each (seed_interval env) before w0 of
         (Some e, w1) \<Rightarrow> (Some e, w1)
       | (None, w1) \<Rightarrow>
           (case for_each (seed_interval env) rest
                   (w1\<lparr>logged := logged w1 @
                      [INFO (''Seeding '' @ interval_name @ '' interval'')]\<rparr>) of
              (Some e, w2) \<Rightarrow> (Some e, w2)
            | (None, w2) \<Rightarrow> update_indicators_data env w2))"
proof -
  have skip: "\<And>w. seed_interval env interval_name w =
      (None, w\<lparr>logged := logged w @ [INFO (''Seeding '' @ interval_name @ '' interval'')]\<rparr>)"
    using assms(2) by (simp add: seed_interval_def Let_def)
  have "seed env w0 =
      (case for_each (seed_interval env) (before @ interval_name # rest) w0 of
         (Some e, w') \<Rightarrow> (Some e, w')
       | (None, w') \<Rightarrow> update_indicators_data env w')"
    by (simp add: seed_def assms(1))
  then show ?thesis
    using skip by (auto simp: for_each_append split: prod.splits option.splits)
qed

theorem seed_skips_empty_result_witness:
  "interval_names = [''raw'', ''1h''] @ ''4h'' # [''1d''] \<and>
   get_historical_ohlcv (sample_env (Inr []) sample_history) COINS
     (if ''4h'' = ''raw'' then ''30m'' else ''4h'') (if ''4h'' = ''raw'' then 1000 else 100) =
     Inr [] \<and>
   fst (seed (sample_env (Inr []) sample_history) empty_world) = None \<and>
   ohlcv_table (snd (seed (sample_env (Inr []) sample_history) empty_world)) ''ohlcv_4h'' = [] \<and>
   ohlcv_table (snd (seed (sample_env (Inr []) sample_history) empty_world)) ''ohlcv_1d'' =
     [bucket, observation] \<and>
   map (\<lambda>u. case u of OhlcvUpdate t df p \<Rightarrow> t | IndicatorsUpdate t rows p \<Rightarrow> t)
     (updates (snd (seed (sample_env (Inr []) sample_history) empty_world))) =
     [''ohlcv_raw'', ''ohlcv_1h'', ''ohlcv_1d'', ''indicators_raw'', ''indicators_1h'',
      ''indicators_1d'']"
  using seed_skips_empty_result [of "[''raw'', ''1h'']" "''4h''" "[''1d'']"
      "sample_env (Inr []) sample_history" empty_world empty_world]
  by (simp add: seed_sample_run)
     (simp add: interval_names_def sample_env_def memory_repository_def sample_history_def)

text \<open>
  Claim C9. When the provider returns an empty list of current rows,
  \<^verbatim>\<open>update_ohlcv_data()\<close> raises \<^verbatim>\<open>IndexError\<close> at \<^verbatim>\<open>raw_data[0]\<close> and the state is the one
  it started from: no table is written and no update is made. The refresh cycle ends
  there. (\<^verbatim>\<open>seed()\<close> tests its rows before it uses them; the sample run does both.)
\<close>

theorem update_ohlcv_data_empty_fetch:
  assumes "get_current_ohlcv env COINS ''30m'' = Inr []"
  shows "update_ohlcv_data env w = (Some IndexError, w) \<and>
    data_ingestion_job env w = (Some IndexError, w)"
  using assms by (simp add: update_ohlcv_data_def data_ingestion_job_def)

theorem update_ohlcv_data_empty_fetch_witness:
  "get_current_ohlcv (sample_env (Inr []) sample_history) COINS ''30m'' = Inr [] \<and>
   update_ohlcv_data (sample_env (Inr []) sample_history) sample_world =
     (Some IndexError, sample_world) \<and>
   fst (seed (sample_env (Inr []) sample_history) empty_world) = None"
  using update_ohlcv_data_empty_fetch [of "sample_env (Inr []) sample_history" sample_world]
  by (simp add: seed_sample_run) (simp add: sample_env_def memory_repository_def)

section \<open>Provider selection and plugin filter\<close>

text \<open>
  Claim C7. The provider is a function of the value of \<^verbatim>\<open>DATA_PROVIDER\<close>: the dummy
  provider when the variable is not set, and for a value \<open>v\<close> the Binance provider when
  \<open>v\<close> is \<^verbatim>\<open>binance\<close>, the CoinPaprika provider when \<open>v\<close> is \<^verbatim>\<open>coinpaprika\<close>, and the
  dummy provider for every other \<open>v\<close>.
\<close>

theorem DataProvider_selection:
  "DataProvider (environ(''DATA_PROVIDER'' := None)) = DummyCoinPriceDataProvider \<and>
   DataProvider (environ(''DATA_PROVIDER'' \<mapsto> v)) =
     (if v = ''binance'' then BinanceCoinPriceDataProvider
      else if v = ''coinpaprika'' then CoinPaprikaCoinPriceDataProvider
      else DummyCoinPriceDataProvider)"
  by (simp add: DataProvider_def)

theorem DataProvider_selection_witness:
  "DataProvider [''DATA_PROVIDER'' \<mapsto> ''binance''] = BinanceCoinPriceDataProvider \<and>
   DataProvider [''DATA_PROVIDER'' \<mapsto> ''coinpaprika''] = CoinPaprikaCoinPriceDataProvider \<and>
   DataProvider [''DATA_PROVIDER'' \<mapsto> ''Binance''] = DummyCoinPriceDataProvider \<and>
   DataProvider [''PATH'' \<mapsto> ''/usr/bin''] = DummyCoinPriceDataProvider"
  using DataProvider_selection [of Map.empty "''binance''"]
    DataProvider_selection [of Map.empty "''coinpaprika''"]
    DataProvider_selection [of Map.empty "''Binance''"]
    DataProvider_selection [of "[''PATH'' \<mapsto> ''/usr/bin'']" "''x''"]
  by (simp add: DataProvider_def)

text \<open>
  Claim C8. The filter of the harness keeps the plugins at the positions whose exclude
  flag is not set, in their order: it removes exactly the excluded plugins.
\<close>

theorem drop_excluded_exact:
  "drop_excluded plugins =
     nths plugins {i. i < length plugins \<and> \<not> exclude (plugins ! i)} \<and>
   subseq (drop_excluded plugins) plugins \<and>
   set (drop_excluded plugins) = {p \<in> set plugins. \<not> exclude p}"
proof (intro conjI)
  show "drop_excluded plugins =
      nths plugins {i. i < length plugins \<and> \<not> exclude (plugins ! i)}"
    by (simp add: drop_excluded_def filter_eq_nths)
  show "subseq (drop_excluded plugins) plugins"
    by (simp add: drop_excluded_def)
  show "set (drop_excluded plugins) = {p \<in> set plugins. \<not> exclude p}"
    by (auto simp: drop_excluded_def)
qed

theorem drop_excluded_exact_witness:
  "drop_excluded [wallet, analyzer, searcher, wallet] = [wallet, searcher, wallet] \<and>
   test_chat_plugins [''wallet'' \<mapsto> wallet, ''QuantaraAI'' \<mapsto> searcher,
      ''coin-technical-analyzer'' \<mapsto> analyzer,
      ''coin-technical-chart-searcher'' \<mapsto> searcher] = Inr [wallet, searcher, searcher]"
  using drop_excluded_exact [of "[wallet, analyzer, searcher, wallet]"]
  by (simp add: drop_excluded_def test_chat_plugins_def plugin_names_def wallet_def
      analyzer_def searcher_def)

section \<open>Keys of the upserts\<close>

lemma repository_update_keys:
  assumes "list_all keyed_as_coded (updates w)"
  shows "list_all keyed_as_coded (updates (snd (repository_update env t df MatchTimestamp w)))"
  using assms by (simp add: repository_update_def split: sum.splits)

lemma update_interval_data_keys:
  assumes "list_all keyed_as_coded (updates w)"
  shows "list_all keyed_as_coded (updates (snd (update_interval_data env t n df c w)))"
  using assms by (simp add: update_interval_data_def get_interval_start_time_def)

lemma update_ohlcv_data_Cons:
  assumes "get_current_ohlcv env COINS ''30m'' = Inr (first # rest)"
  shows "update_ohlcv_data env w =
    (case repository_update env ''ohlcv_raw'' (first # rest) MatchTimestamp w of
       (Some e, w') \<Rightarrow> (Some e, w')
     | (None, w') \<Rightarrow>
         for_each (\<lambda>interval_name. update_interval_data env (''ohlcv_'' @ interval_name)
             interval_name (first # rest) (timestamp first div 1000))
           (tl interval_names) w')"
  using assms by (simp add: update_ohlcv_data_def Let_def)

lemma update_ohlcv_data_keys:
  assumes "list_all keyed_as_coded (updates w)"
  shows "list_all keyed_as_coded (updates (snd (update_ohlcv_data env w)))"
proof (cases "get_current_ohlcv env COINS ''30m''")
  case (Inl e)
  then show ?thesis using assms by (simp add: update_ohlcv_data_def)
next
  case (Inr raw_data)
  show ?thesis
  proof (cases raw_data)
    case Nil
    then show ?thesis using assms Inr by (simp add: update_ohlcv_data_def)
  next
    case (Cons first rest)
    then have fetch: "get_current_ohlcv env COINS ''30m'' = Inr (first # rest)"
      using Inr by simp
    show ?thesis
      unfolding update_ohlcv_data_Cons [OF fetch]
    proof (rule seq_invariant [where P = "\<lambda>w. list_all keyed_as_coded (updates w)"])
      show "list_all keyed_as_coded
          (updates (snd (repository_update env ''ohlcv_raw'' (first # rest) MatchTimestamp w)))"
        using assms by (rule repository_update_keys)
    next
      fix w' :: "('a, 'b, 'c, 'd) world"
      assume "list_all keyed_as_coded (updates w')"
      then show "list_all keyed_as_coded (updates (snd (for_each
          (\<lambda>interval_name. update_interval_data env (''ohlcv_'' @ interval_name)
             interval_name (first # rest) (timestamp first div 1000))
          (tl interval_names) w')))"
        by (intro for_each_invariant [where P = "\<lambda>w. list_all keyed_as_coded (updates w)"])
          (simp_all add: update_interval_data_keys)
    qed
  qed
qed

lemma update_symbol_indicators_keys:
  assumes "list_all keyed_as_coded (updates w)"
  shows "list_all keyed_as_coded (updates (snd (update_symbol_indicators env n df s w)))"
  using assms
  by (auto simp: update_symbol_indicators_def Let_def split: sum.splits prod.splits)

lemma update_interval_indicators_keys:
  assumes "list_all keyed_as_coded (updates w)"
  shows "list_all keyed_as_coded (updates (snd (update_interval_indicators env n w)))"
proof -
  have loop: "\<And>w' df syms. list_all keyed_as_coded (updates w') \<Longrightarrow>
      list_all keyed_as_coded (updates (snd (for_each
        (update_symbol_indicators env n df) syms w')))"
    by (rule for_each_invariant [where P = "\<lambda>w. list_all keyed_as_coded (updates w)"])
      (simp_all add: update_symbol_indicators_keys)
  show ?thesis
    using assms loop
    by (auto simp: update_interval_indicators_def Let_def split: sum.splits option.splits)
qed

lemma update_indicators_data_keys:
  assumes "list_all keyed_as_coded (updates w)"
  shows "list_all keyed_as_coded (updates (snd (update_indicators_data env w)))"
  unfolding update_indicators_data_def
  by (rule for_each_invariant [where P = "\<lambda>w. list_all keyed_as_coded (updates w)"])
    (simp_all add: update_interval_indicators_keys assms)

lemma seed_interval_keys:
  assumes "list_all keyed_as_coded (updates w)"
  shows "list_all keyed_as_coded (updates (snd (seed_interval env n w)))"
proof -
  let ?w1 = "w\<lparr>logged := logged w @ [INFO (''Seeding '' @ n @ '' interval'')]\<rparr>"
  have "list_all keyed_as_coded (updates ?w1)" using assms by simp
  then show ?thesis
    using repository_update_keys [of ?w1 env]
    by (auto simp: seed_interval_def Let_def split: sum.splits)
qed

lemma seed_keys:
  assumes "list_all keyed_as_coded (updates w)"
  shows "list_all keyed_as_coded (updates (snd (seed env w)))"
  unfolding seed_def
proof (rule seq_invariant [where P = "\<lambda>w. list_all keyed_as_coded (updates w)"])
  show "list_all keyed_as_coded (updates (snd (for_each (seed_interval env) interval_names w)))"
    by (rule for_each_invariant [where P = "\<lambda>w. list_all keyed_as_coded (updates w)"])
      (simp_all add: seed_interval_keys assms)
qed (rule update_indicators_data_keys)

lemma data_ingestion_job_keys:
  assumes "list_all keyed_as_coded (updates w)"
  shows "list_all keyed_as_coded (updates (snd (data_ingestion_job env w)))"
  unfolding data_ingestion_job_def
  by (rule seq_invariant [where P = "\<lambda>w. list_all keyed_as_coded (updates w)"])
    (simp_all add: update_ohlcv_data_keys update_indicators_data_keys assms)

lemma matches_refl: "matches p k k"
  by (cases p) simp_all

lemma upsert_unique_keys:
  assumes "unique_keys key table" and "unique_keys key batch"
  shows "unique_keys key (upsert key p table batch)"
proof -
  let ?kept = "[t \<leftarrow> table. \<not> (\<exists>s \<in> set batch. matches p (key s) (key t))]"
  have "distinct (map key ?kept)"
    using assms(1) by (simp add: unique_keys_def distinct_map_filter)
  moreover have "key ` set ?kept \<inter> key ` set batch = {}"
  proof (intro equals0I)
    fix k
    assume "k \<in> key ` set ?kept \<inter> key ` set batch"
    then obtain t s where t: "\<forall>s \<in> set batch. \<not> matches p (key s) (key t)"
      and s: "s \<in> set batch" and k: "key t = k" "key s = k"
      by auto
    have "\<not> matches p (key s) (key t)" using t s by blast
    then show False using matches_refl [of p k] k by simp
  qed
  ultimately show ?thesis
    using assms(2) by (simp add: unique_keys_def upsert_def)
qed

lemma distinct_symbols_unique:
  assumes "distinct (map symbol rows)"
  shows "unique_keys ohlcv_key (map (\<lambda>r. r\<lparr>timestamp := f r\<rparr>) rows)"
proof -
  have "inj_on symbol (set rows)" using assms by (simp add: distinct_map)
  then have "inj_on (\<lambda>r. (f r, symbol r)) (set rows)"
    by (auto simp: inj_on_def)
  moreover have "distinct rows" using assms by (simp add: distinct_map)
  ultimately have "distinct (map (\<lambda>r. (f r, symbol r)) rows)"
    by (simp add: distinct_map)
  then show ?thesis
    by (simp add: unique_keys_def ohlcv_key_def comp_def)
qed

lemma repository_update_unique:
  assumes "\<forall>name. unique_keys ohlcv_key (ohlcv_table w name)"
    and "unique_keys ohlcv_key df"
  shows "\<forall>name. unique_keys ohlcv_key
    (ohlcv_table (snd (repository_update
       (memory_repository cv current historical indicators) t df p w)) name)"
  using assms upsert_unique_keys [of ohlcv_key "ohlcv_table w t" df p]
  by (simp add: repository_update_def memory_repository_def)

lemma update_interval_data_unique:
  assumes "\<forall>name. unique_keys ohlcv_key (ohlcv_table w name)"
  shows "\<forall>name. unique_keys ohlcv_key
    (ohlcv_table (snd (update_interval_data env t n new_data_df c w)) name)"
  using assms by (simp add: update_interval_data_def get_interval_start_time_def)

lemma update_ohlcv_data_unique:
  assumes u: "\<forall>name. unique_keys ohlcv_key (ohlcv_table w name)"
    and c: "\<forall>coins interval rows. current coins interval = Inr rows \<longrightarrow>
      distinct (map symbol rows)"
  shows "\<forall>name. unique_keys ohlcv_key
    (ohlcv_table (snd (update_ohlcv_data
       (memory_repository cv current historical indicators) w)) name)"
proof -
  let ?env = "memory_repository cv current historical indicators"
  show ?thesis
  proof (cases "get_current_ohlcv ?env COINS ''30m''")
    case (Inl e)
    then show ?thesis using u by (simp add: update_ohlcv_data_def)
  next
    case (Inr raw_data)
    then have d: "distinct (map symbol raw_data)"
      using c by (simp add: memory_repository_def)
    show ?thesis
    proof (cases raw_data)
      case Nil
      then show ?thesis using u Inr by (simp add: update_ohlcv_data_def)
    next
      case (Cons first rest)
      then have fetch: "get_current_ohlcv ?env COINS ''30m'' = Inr (first # rest)"
        using Inr by simp
      have d': "distinct (map symbol (first # rest))" using d Cons by simp
      have raw: "unique_keys ohlcv_key (first # rest)"
        using distinct_symbols_unique [OF d', of timestamp] by simp
      show ?thesis
        unfolding update_ohlcv_data_Cons [OF fetch]
      proof (rule seq_invariant
          [where P = "\<lambda>w. \<forall>name. unique_keys ohlcv_key (ohlcv_table w name)"])
        show "\<forall>name. unique_keys ohlcv_key (ohlcv_table (snd (repository_update ?env
            ''ohlcv_raw'' (first # rest) MatchTimestamp w)) name)"
          using u raw by (rule repository_update_unique)
      next
        fix w' :: "('a, 'a indicator list, 'a frame, 'a indicator list) world"
        assume "\<forall>name. unique_keys ohlcv_key (ohlcv_table w' name)"
        then show "\<forall>name. unique_keys ohlcv_key (ohlcv_table (snd (for_each
            (\<lambda>interval_name. update_interval_data ?env (''ohlcv_'' @ interval_name)
               interval_name (first # rest) (timestamp first div 1000))
            (tl interval_names) w')) name)"
          by (intro for_each_invariant
              [where P = "\<lambda>w. \<forall>name. unique_keys ohlcv_key (ohlcv_table w name)"])
            (simp_all add: update_interval_data_unique)
      qed
    qed
  qed
qed

lemma update_indicators_data_tables:
  "ohlcv_table (snd (update_indicators_data env w)) = ohlcv_table w"
proof -
  have step: "ohlcv_table (snd (update_interval_indicators env x w')) = ohlcv_table w"
    if "ohlcv_table w' = ohlcv_table w" for x w'
    using that update_interval_indicators_extends [of env w' x] by (simp add: extends_def)
  show ?thesis
    unfolding update_indicators_data_def
    by (rule for_each_invariant [where P = "\<lambda>w'. ohlcv_table w' = ohlcv_table w"])
       (simp_all add: step)
qed

lemma seed_interval_unique:
  assumes u: "\<forall>name. unique_keys ohlcv_key (ohlcv_table w name)"
    and h: "\<forall>coins interval limit rows. historical coins interval limit = Inr rows \<longrightarrow>
      unique_keys ohlcv_key rows"
  shows "\<forall>name. unique_keys ohlcv_key
    (ohlcv_table (snd (seed_interval
       (memory_repository cv current historical indicators) n w)) name)"
proof -
  let ?env = "memory_repository cv current historical indicators"
  let ?w1 = "w\<lparr>logged := logged w @ [INFO (''Seeding '' @ n @ '' interval'')]\<rparr>"
  have u1: "\<forall>name. unique_keys ohlcv_key (ohlcv_table ?w1 name)" using u by simp
  show ?thesis
  proof (cases "get_historical_ohlcv ?env COINS (if n = ''raw'' then ''30m'' else n)
      (if n = ''raw'' then 1000 else 100)")
    case (Inl e)
    then show ?thesis using u by (simp add: seed_interval_def Let_def)
  next
    case (Inr raw_data)
    then have "unique_keys ohlcv_key raw_data"
      using h by (simp add: memory_repository_def)
    then have "\<forall>name. unique_keys ohlcv_key (ohlcv_table (snd (repository_update ?env
        (''ohlcv_'' @ n) raw_data MatchTimestamp ?w1)) name)"
      using u1 repository_update_unique by blast
    then show ?thesis using u Inr by (simp add: seed_interval_def Let_def)
  qed
qed

lemma seed_unique:
  assumes u: "\<forall>name. unique_keys ohlcv_key (ohlcv_table w name)"
    and h: "\<forall>coins interval limit rows. historical coins interval limit = Inr rows \<longrightarrow>
      unique_keys ohlcv_key rows"
  shows "\<forall>name. unique_keys ohlcv_key
    (ohlcv_table (snd (seed
       (memory_repository cv current historical indicators) w)) name)"
  unfolding seed_def
proof (rule seq_invariant
    [where P = "\<lambda>w. \<forall>name. unique_keys ohlcv_key (ohlcv_table w name)"])
  show "\<forall>name. unique_keys ohlcv_key (ohlcv_table (snd (for_each
      (seed_interval (memory_repository cv current historical indicators))
      interval_names w)) name)"
    by (rule for_each_invariant
        [where P = "\<lambda>w. \<forall>name. unique_keys ohlcv_key (ohlcv_table w name)"])
      (simp_all add: seed_interval_unique [OF _ h] u)
qed (simp add: update_indicators_data_tables)

lemma data_ingestion_job_unique:
  assumes u: "\<forall>name. unique_keys ohlcv_key (ohlcv_table w name)"
    and c: "\<forall>coins interval rows. current coins interval = Inr rows \<longrightarrow>
      distinct (map symbol rows)"
  shows "\<forall>name. unique_keys ohlcv_key
    (ohlcv_table (snd (data_ingestion_job
       (memory_repository cv current historical indicators) w)) name)"
  unfolding data_ingestion_job_def
  by (rule seq_invariant
      [where P = "\<lambda>w. \<forall>name. unique_keys ohlcv_key (ohlcv_table w name)"])
    (simp_all add: update_ohlcv_data_unique [OF u c] update_indicators_data_tables)

lemma refresh_sample_run:
  "data_ingestion_job (sample_env (Inr [observation, eth_observation]) sample_history)
     refresh_world =
   (Some (NameError ''get_interval_start_time''), refresh_world\<lparr>
      ohlcv_table := (\<lambda>table_name. [])
        (''ohlcv_1h'' := [bucket, eth_bucket],
         ''ohlcv_raw'' := [bucket, eth_bucket, observation, eth_observation]),
      updates :=
        [OhlcvUpdate ''ohlcv_raw'' [observation, eth_observation] MatchTimestamp]\<rparr>)"
  by (simp add: data_ingestion_job_def update_ohlcv_data_def update_interval_data_def
      get_interval_start_time_def repository_update_def interval_names_def sample_env_def
      memory_repository_def refresh_world_def empty_world_def upsert_def ohlcv_key_def
      bucket_def eth_bucket_def observation_def eth_observation_def candle_def Let_def)

text \<open>
  Claim C1, as stated: every update of a non-raw OHLCV table is keyed on the
  (timestamp, symbol) pair. \<^verbatim>\<open>seed()\<close> updates the 1h table with the predicate on the
  timestamp alone.
\<close>

theorem seed_keyed_on_timestamp:
  "OhlcvUpdate ''ohlcv_1h'' [bucket, observation] MatchTimestamp
     \<in> set (updates (snd (seed (sample_env (Inr []) sample_history) empty_world))) \<and>
   \<not> keyed_as_claimed
     (OhlcvUpdate ''ohlcv_1h'' [bucket, observation] MatchTimestamp
      :: (real, real indicator list) upsert)"
  by (simp add: seed_sample_run)

text \<open>
  Claim C1, amended. Every update that \<^verbatim>\<open>seed()\<close> and a refresh cycle make of an OHLCV
  table, raw or not, is keyed on the timestamp alone; only the updates of the indicator
  tables are keyed on the (timestamp, symbol) pair. With the repository in memory, whose
  upsert supersedes the rows the batch matches, and a provider that returns one row per
  symbol in a current fetch and at most one row per (timestamp, symbol) pair in a
  historical fetch, every OHLCV table that has at most one record per
  (timestamp, symbol) pair still has after \<^verbatim>\<open>seed()\<close> and after a refresh cycle.
\<close>

theorem ohlcv_updates_keyed_on_timestamp:
  assumes "list_all keyed_as_coded (updates w)"
  shows "list_all keyed_as_coded (updates (snd (seed env w))) \<and>
    list_all keyed_as_coded (updates (snd (data_ingestion_job env w))) \<and>
    ((\<forall>name. unique_keys ohlcv_key (ohlcv_table m name)) \<and>
     (\<forall>coins interval rows. current coins interval = Inr rows \<longrightarrow>
        distinct (map symbol rows)) \<and>
     (\<forall>coins interval limit rows. historical coins interval limit = Inr rows \<longrightarrow>
        unique_keys ohlcv_key rows) \<longrightarrow>
     (\<forall>name. unique_keys ohlcv_key
        (ohlcv_table (snd (seed
           (memory_repository cv current historical indicators) m)) name)) \<and>
     (\<forall>name. unique_keys ohlcv_key
        (ohlcv_table (snd (data_ingestion_job
           (memory_repository cv current historical indicators) m)) name)))"
proof -
  have keys_seed: "list_all keyed_as_coded (updates (snd (seed env w)))"
    using assms by (rule seed_keys)
  have keys_refresh: "list_all keyed_as_coded (updates (snd (data_ingestion_job env w)))"
    using assms by (rule data_ingestion_job_keys)
  have unique: "(\<forall>name. unique_keys ohlcv_key (ohlcv_table m name)) \<and>
     (\<forall>coins interval rows. current coins interval = Inr rows \<longrightarrow>
        distinct (map symbol rows)) \<and>
     (\<forall>coins interval limit rows. historical coins interval limit = Inr rows \<longrightarrow>
        unique_keys ohlcv_key rows) \<longrightarrow>
     (\<forall>name. unique_keys ohlcv_key
        (ohlcv_table (snd (seed
           (memory_repository cv current historical indicators) m)) name)) \<and>
     (\<forall>name. unique_keys ohlcv_key
        (ohlcv_table (snd (data_ingestion_job
           (memory_repository cv current historical indicators) m)) name))"
  proof (rule impI)
    assume a: "(\<forall>name. unique_keys ohlcv_key (ohlcv_table m name)) \<and>
     (\<forall>coins interval rows. current coins interval = Inr rows \<longrightarrow>
        distinct (map symbol rows)) \<and>
     (\<forall>coins interval limit rows. historical coins interval limit = Inr rows \<longrightarrow>
        unique_keys ohlcv_key rows)"
    then have u: "\<forall>name. unique_keys ohlcv_key (ohlcv_table m name)" by (rule conjunct1)
    from a have c: "\<forall>coins interval rows. current coins interval = Inr rows \<longrightarrow>
        distinct (map symbol rows)"
      by (rule conjunct1 [OF conjunct2])
    from a have h: "\<forall>coins interval limit rows.
        historical coins interval limit = Inr rows \<longrightarrow> unique_keys ohlcv_key rows"
      by (rule conjunct2 [OF conjunct2])
    have "\<forall>name. unique_keys ohlcv_key
        (ohlcv_table (snd (seed
           (memory_repository cv current historical indicators) m)) name)"
      using u h by (rule seed_unique)
    moreover have "\<forall>name. unique_keys ohlcv_key
        (ohlcv_table (snd (data_ingestion_job
           (memory_repository cv current historical indicators) m)) name)"
      using u c by (rule data_ingestion_job_unique)
    ultimately show "(\<forall>name. unique_keys ohlcv_key
        (ohlcv_table (snd (seed
           (memory_repository cv current historical indicators) m)) name)) \<and>
     (\<forall>name. unique_keys ohlcv_key
        (ohlcv_table (snd (data_ingestion_job
           (memory_repository cv current historical indicators) m)) name))"
      by (rule conjI)
  qed
  show ?thesis
    using keys_seed keys_refresh unique by simp
qed

text \<open>
  A seeding of the empty world, and a refresh of a world whose raw and 1h tables hold a
  BTC and an ETH bucket, with one new observation of each symbol.
\<close>

theorem ohlcv_updates_keyed_on_timestamp_witness:
  "list_all keyed_as_coded (updates empty_world) \<and>
   map update_key (updates (snd (seed (sample_env (Inr []) sample_history) empty_world))) =
     [(''ohlcv_raw'', MatchTimestamp), (''ohlcv_1h'', MatchTimestamp),
      (''ohlcv_1d'', MatchTimestamp), (''indicators_raw'', MatchTimestampAndSymbol),
      (''indicators_1h'', MatchTimestampAndSymbol),
      (''indicators_1d'', MatchTimestampAndSymbol)] \<and>
   distinct (map symbol [observation, eth_observation]) \<and>
   map update_key (updates (snd (data_ingestion_job
      (sample_env (Inr [observation, eth_observation]) sample_history) refresh_world))) =
     [(''ohlcv_raw'', MatchTimestamp)] \<and>
   ohlcv_table (snd (data_ingestion_job
      (sample_env (Inr [observation, eth_observation]) sample_history) refresh_world))
      ''ohlcv_raw'' = [bucket, eth_bucket, observation, eth_observation] \<and>
   unique_keys ohlcv_key [bucket, eth_bucket, observation, eth_observation]"
  using ohlcv_updates_keyed_on_timestamp
    [of empty_world "sample_env (Inr []) sample_history"
        refresh_world "\<lambda>coins interval. Inr [observation, eth_observation]"
        "\<lambda>coins interval limit. sample_history interval" real_of_int closes]
  by (simp add: refresh_sample_run seed_sample_run)
     (simp add: refresh_world_def empty_world_def unique_keys_def ohlcv_key_def bucket_def
        eth_bucket_def observation_def eth_observation_def candle_def)

end
